theory Spec2Isabelle
  imports Complex_Main "HOL-Library.Multiset" "HOL-Library.Sublist"
begin

section \<open>Data model: cells, rows and frames\<close>

text \<open>
  A float64 cell. Comparisons of floats are exact comparisons of the numbers they
  denote, so a finite float is modelled by the real it stands for; \<open>NaN\<close> and the two
  infinities are values of their own. An integer column is a column of finite numbers
  that happen to be integers.
\<close>

datatype fl = NaN | NInf | Fin real | PInf

text \<open>A parsed timestamp, as the components pandas exposes through \<open>.dt\<close>.\<close>

record timestamp =
  year :: int
  month :: nat
  day :: nat
  hour :: nat
  minute :: nat
  second :: nat

text \<open>
  The values a cell of the table can hold: a number, a string, a parsed timestamp, or
  the missing timestamp \<open>NaT\<close>.
\<close>

datatype cell = Num fl | Str string | Stamp timestamp | NaT

datatype error = KeyError string | TypeError | ValueError

text \<open>
  A row carries its index label and its cells by column name. A frame is the ordered
  list of its column names and the ordered list of its rows. A cell that a row does not
  define under a column of the frame reads as \<open>NaN\<close>, which is how pandas fills it.
\<close>

record row =
  label :: nat
  cells :: "string \<rightharpoonup> cell"

record frame =
  columns :: "string list"
  rows :: "row list"

definition value_at :: "row \<Rightarrow> string \<Rightarrow> cell" where
  "value_at r c = (case cells r c of None \<Rightarrow> Num NaN | Some v \<Rightarrow> v)"

section \<open>Errors as values\<close>

definition and_then :: "error + 'a \<Rightarrow> ('a \<Rightarrow> error + 'b) \<Rightarrow> error + 'b" where
  "and_then m f = (case m of Inl e \<Rightarrow> Inl e | Inr x \<Rightarrow> f x)"

text \<open>Evaluates a list of results left to right; the first error wins.\<close>

fun sequence :: "(error + 'a) list \<Rightarrow> error + 'a list" where
  "sequence [] = Inr []"
| "sequence (m # ms) =
     (case m of Inl e \<Rightarrow> Inl e
      | Inr x \<Rightarrow> (case sequence ms of Inl e \<Rightarrow> Inl e | Inr xs \<Rightarrow> Inr (x # xs)))"

section \<open>The pandas operations the function uses\<close>

text \<open>\<open>df[c]\<close>: the column as a series of cells, or \<open>KeyError\<close> when the frame has no such column.\<close>

definition getcol :: "frame \<Rightarrow> string \<Rightarrow> error + cell list" where
  "getcol df c =
     (if c \<in> set (columns df) then Inr (map (\<lambda>r. value_at r c) (rows df))
      else Inl (KeyError c))"

text \<open>
  \<open>df[c] = series\<close>: every row gets its value under \<open>c\<close>; a new column name goes last.
  The series always comes from the same frame, so the lengths agree.
\<close>

definition setcol :: "frame \<Rightarrow> string \<Rightarrow> cell list \<Rightarrow> frame" where
  "setcol df c xs =
     \<lparr>columns = (if c \<in> set (columns df) then columns df else columns df @ [c]),
      rows = map (\<lambda>(r, x). r\<lparr>cells := (cells r)(c \<mapsto> x)\<rparr>) (zip (rows df) xs)\<rparr>"

text \<open>Comparison of a float with a scalar: every comparison with \<open>NaN\<close> is false.\<close>

fun fl_lt :: "fl \<Rightarrow> real \<Rightarrow> bool" where
  "fl_lt NaN v = False"
| "fl_lt NInf v = True"
| "fl_lt (Fin x) v = (x < v)"
| "fl_lt PInf v = False"

fun fl_gt :: "fl \<Rightarrow> real \<Rightarrow> bool" where
  "fl_gt NaN v = False"
| "fl_gt NInf v = False"
| "fl_gt (Fin x) v = (x > v)"
| "fl_gt PInf v = True"

fun fl_le :: "fl \<Rightarrow> real \<Rightarrow> bool" where
  "fl_le NaN v = False"
| "fl_le NInf v = True"
| "fl_le (Fin x) v = (x \<le> v)"
| "fl_le PInf v = False"

text \<open>
  Comparison of a cell with a number: defined on numbers, a \<open>TypeError\<close> on strings
  and timestamps.
\<close>

fun cell_cmp :: "(fl \<Rightarrow> real \<Rightarrow> bool) \<Rightarrow> cell \<Rightarrow> real \<Rightarrow> error + bool" where
  "cell_cmp op (Num f) v = Inr (op f v)"
| "cell_cmp op (Str s) v = Inl TypeError"
| "cell_cmp op (Stamp t) v = Inl TypeError"
| "cell_cmp op NaT v = Inl TypeError"

definition series_cmp :: "(fl \<Rightarrow> real \<Rightarrow> bool) \<Rightarrow> cell list \<Rightarrow> real \<Rightarrow> error + bool list" where
  "series_cmp op xs v = sequence (map (\<lambda>c. cell_cmp op c v) xs)"

text \<open>\<open>df[c] < v\<close>, \<open>df[c] > v\<close>, \<open>df[c] <= v\<close>: read the column, then compare.\<close>

definition col_lt :: "frame \<Rightarrow> string \<Rightarrow> real \<Rightarrow> error + bool list" where
  "col_lt df c v = and_then (getcol df c) (\<lambda>xs. series_cmp fl_lt xs v)"

definition col_gt :: "frame \<Rightarrow> string \<Rightarrow> real \<Rightarrow> error + bool list" where
  "col_gt df c v = and_then (getcol df c) (\<lambda>xs. series_cmp fl_gt xs v)"

definition col_le :: "frame \<Rightarrow> string \<Rightarrow> real \<Rightarrow> error + bool list" where
  "col_le df c v = and_then (getcol df c) (\<lambda>xs. series_cmp fl_le xs v)"

text \<open>\<open>.isna()\<close>: true on \<open>NaN\<close> and \<open>NaT\<close>, false on every other cell; it never raises.\<close>

fun cell_isna :: "cell \<Rightarrow> bool" where
  "cell_isna (Num NaN) = True"
| "cell_isna NaT = True"
| "cell_isna c = False"

definition col_isna :: "frame \<Rightarrow> string \<Rightarrow> error + bool list" where
  "col_isna df c = and_then (getcol df c) (\<lambda>xs. Inr (map cell_isna xs))"

text \<open>
  \<open>a | b\<close> on two boolean series: both operands are evaluated, left first, then
  combined elementwise.
\<close>

definition series_or :: "error + bool list \<Rightarrow> error + bool list \<Rightarrow> error + bool list" where
  "series_or a b =
     and_then a (\<lambda>x. and_then b (\<lambda>y. Inr (map (\<lambda>(p, q). p \<or> q) (zip x y))))"

text \<open>\<open>df[mask]\<close>: the rows whose mask entry is true, in their order; the columns stay.\<close>

definition mask_rows :: "frame \<Rightarrow> bool list \<Rightarrow> frame" where
  "mask_rows df m = df\<lparr>rows := map fst (filter snd (zip (rows df) m))\<rparr>"

text \<open>
  \<open>pd.concat([a, b])\<close>: the columns of \<open>a\<close>, then those of \<open>b\<close> that \<open>a\<close> lacks; the rows
  of \<open>a\<close>, then the rows of \<open>b\<close>, each with its label, and \<open>NaN\<close> where a row has no
  value under a column of the result.
\<close>

definition reindex :: "string list \<Rightarrow> row \<Rightarrow> row" where
  "reindex cs r = r\<lparr>cells := (\<lambda>c. if c \<in> set cs then Some (value_at r c) else None)\<rparr>"

definition concat_frames :: "frame \<Rightarrow> frame \<Rightarrow> frame" where
  "concat_frames a b =
     (let cs = columns a @ filter (\<lambda>c. c \<notin> set (columns a)) (columns b)
      in \<lparr>columns = cs, rows = map (reindex cs) (rows a @ rows b)\<rparr>)"

text \<open>
  \<open>pd.to_datetime(series, errors='coerce')\<close> belongs to pandas and is a parameter
  \<open>conv\<close>. Given the whole column (pandas infers the format from the column) it either
  raises, as it does on a column that cannot be made a datetime column, or says what it
  makes of each cell, with \<open>None\<close> for a cell it cannot parse. When it returns, the
  result is a series of timestamps and \<open>NaT\<close> of the same length.
\<close>

type_synonym converter = "cell list \<Rightarrow> error + (cell \<Rightarrow> timestamp option)"

definition coerce :: "(cell \<Rightarrow> timestamp option) \<Rightarrow> cell \<Rightarrow> cell" where
  "coerce f c = (case f c of None \<Rightarrow> NaT | Some t \<Rightarrow> Stamp t)"

definition to_datetime :: "converter \<Rightarrow> cell list \<Rightarrow> error + cell list" where
  "to_datetime conv xs = and_then (conv xs) (\<lambda>f. Inr (map (coerce f) xs))"

text \<open>\<open>.dt.hour\<close> on a series of timestamps: the hour component, \<open>NaN\<close> for \<open>NaT\<close>.\<close>

fun dt_hour :: "cell \<Rightarrow> cell" where
  "dt_hour (Stamp t) = Num (Fin (real (hour t)))"
| "dt_hour c = Num NaN"

text \<open>
  \<open>geodesic((lat1, lon1), (lat2, lon2)).miles\<close> belongs to geopy and is a parameter
  \<open>geo\<close>: given the four cells of a row it returns a float or raises.
\<close>

type_synonym geodesic = "cell \<times> cell \<Rightarrow> cell \<times> cell \<Rightarrow> error + fl"

definition geodesic_args :: "row \<Rightarrow> (cell \<times> cell) \<times> (cell \<times> cell)" where
  "geodesic_args r =
     ((value_at r ''pickup_latitude'', value_at r ''pickup_longitude''),
      (value_at r ''dropoff_latitude'', value_at r ''dropoff_longitude''))"

text \<open>
  Line 71, \<open>df_cleaned['distance_miles'] = df_cleaned.apply(lambda row: ..., axis=1)\<close>.
  On a frame with rows, \<open>apply\<close> calls the lambda on every row in order, stops at the
  first call that raises, and gives the series of the results. On a frame with no rows
  it calls the lambda once, on a row that is \<open>NaN\<close> under every column, to find out
  what the lambda returns. When that call returns a number the result is the empty
  series. When that call raises, the exception is swallowed and the result is a copy
  of the frame itself, and then the assignment of a frame with several columns to the
  one column \<open>distance_miles\<close> raises \<open>ValueError\<close>.

  \<open>apply_args\<close> lists the arguments the lambda passes to the geodesic routine;
  \<open>apply_geodesic\<close> calls the routine on exactly these and gives the series that line
  71 assigns, or the error it raises.
\<close>

definition probe_args :: "(cell \<times> cell) \<times> (cell \<times> cell)" where
  "probe_args = ((Num NaN, Num NaN), (Num NaN, Num NaN))"

definition apply_args :: "frame \<Rightarrow> ((cell \<times> cell) \<times> (cell \<times> cell)) list" where
  "apply_args df = (if rows df = [] then [probe_args] else map geodesic_args (rows df))"

definition apply_geodesic :: "geodesic \<Rightarrow> frame \<Rightarrow> error + cell list" where
  "apply_geodesic geo df =
     (let results = sequence (map (\<lambda>(p, q). geo p q) (apply_args df))
      in if rows df = []
         then (case results of Inl e \<Rightarrow> Inl ValueError | Inr ds \<Rightarrow> Inr [])
         else and_then results (\<lambda>ds. Inr (map Num ds)))"

section \<open>The cleaning function\<close>

text \<open>
  Lines 29 to 62 of \<open>clean_uber_data\<close>: the six conditions and their disjunction, on the
  frame as it is after the timestamp conversion. Python evaluates the operands of
  \<open>|\<close> left to right, so the first column that is missing or ill-typed raises.
\<close>

definition condition_invalid_datetime :: "frame \<Rightarrow> error + bool list" where
  "condition_invalid_datetime df = col_isna df ''pickup_datetime''"

definition condition_out_of_range :: "frame \<Rightarrow> real \<Rightarrow> real \<Rightarrow> real \<Rightarrow> real \<Rightarrow> error + bool list" where
  "condition_out_of_range df LONG_MIN LONG_MAX LAT_MIN LAT_MAX =
     series_or (series_or (series_or (series_or (series_or (series_or (series_or
       (col_lt df ''pickup_longitude'' LONG_MIN)
       (col_gt df ''pickup_longitude'' LONG_MAX))
       (col_lt df ''pickup_latitude'' LAT_MIN))
       (col_gt df ''pickup_latitude'' LAT_MAX))
       (col_lt df ''dropoff_longitude'' LONG_MIN))
       (col_gt df ''dropoff_longitude'' LONG_MAX))
       (col_lt df ''dropoff_latitude'' LAT_MIN))
       (col_gt df ''dropoff_latitude'' LAT_MAX)"

definition condition_invalid_fare :: "frame \<Rightarrow> error + bool list" where
  "condition_invalid_fare df = col_le df ''fare_amount'' 0"

definition condition_nan_coordinates :: "frame \<Rightarrow> error + bool list" where
  "condition_nan_coordinates df =
     series_or (series_or (series_or
       (col_isna df ''pickup_longitude'')
       (col_isna df ''pickup_latitude''))
       (col_isna df ''dropoff_longitude''))
       (col_isna df ''dropoff_latitude'')"

definition condition_zero_passenger :: "frame \<Rightarrow> error + bool list" where
  "condition_zero_passenger df = col_le df ''passenger_count'' 0"

definition condition_high_passenger_count :: "frame \<Rightarrow> error + bool list" where
  "condition_high_passenger_count df = col_gt df ''passenger_count'' 10"

text \<open>
  The conditions are assigned in the order of lines 29 to 52 (so that is the order in
  which a missing column raises) and combined in the order of lines 55 to 62.
\<close>

definition initial_condition_combined ::
  "frame \<Rightarrow> real \<Rightarrow> real \<Rightarrow> real \<Rightarrow> real \<Rightarrow> error + bool list" where
  "initial_condition_combined df LONG_MIN LONG_MAX LAT_MIN LAT_MAX =
     and_then (condition_invalid_datetime df) (\<lambda>c_datetime.
     and_then (condition_out_of_range df LONG_MIN LONG_MAX LAT_MIN LAT_MAX) (\<lambda>c_range.
     and_then (condition_invalid_fare df) (\<lambda>c_fare.
     and_then (condition_nan_coordinates df) (\<lambda>c_nan.
     and_then (condition_zero_passenger df) (\<lambda>c_zero.
     and_then (condition_high_passenger_count df) (\<lambda>c_high.
       series_or (series_or (series_or (series_or (series_or
         (Inr c_range) (Inr c_fare)) (Inr c_nan)) (Inr c_zero)) (Inr c_datetime)) (Inr c_high)))))))"

text \<open>
  Lines 64 to 85: the first split, the distance column on the survivors, the second
  split. The result is the pair \<open>(df_cleaned, dropped)\<close>.
\<close>

definition split_and_measure ::
  "geodesic \<Rightarrow> frame \<Rightarrow> bool list \<Rightarrow> error + (frame \<times> frame)" where
  "split_and_measure geo df m =
     (let dropped = mask_rows df m;
          df_cleaned = mask_rows df (map Not m)
      in and_then (apply_geodesic geo df_cleaned) (\<lambda>ds.
         let df_cleaned = setcol df_cleaned ''distance_miles'' ds
         in and_then (col_le df_cleaned ''distance_miles'' 0) (\<lambda>condition_invalid_distance.
            let dropped = concat_frames dropped (mask_rows df_cleaned condition_invalid_distance);
                df_cleaned = mask_rows df_cleaned (map Not condition_invalid_distance)
            in Inr (df_cleaned, dropped))))"

text \<open>
  Lines 25 and 26 assign to columns of the caller's frame, so the frame after these two
  assignments is part of the result, whether or not the rest of the call raises. A
  conversion that raises does so at line 25, before anything is assigned.
\<close>

definition convert_datetime :: "converter \<Rightarrow> frame \<Rightarrow> error + frame" where
  "convert_datetime conv df =
     and_then (getcol df ''pickup_datetime'') (\<lambda>raw.
     and_then (to_datetime conv raw) (\<lambda>converted_column.
       let df = setcol df ''pickup_datetime'' converted_column
       in and_then (getcol df ''pickup_datetime'') (\<lambda>parsed.
            Inr (setcol df ''pickup_hour'' (map dt_hour parsed)))))"

definition clean_uber_data ::
  "converter \<Rightarrow> geodesic \<Rightarrow> frame \<Rightarrow> real \<Rightarrow> real \<Rightarrow> real \<Rightarrow> real
     \<Rightarrow> frame \<times> (error + (frame \<times> frame))" where
  "clean_uber_data conv geo df LONG_MIN LONG_MAX LAT_MIN LAT_MAX =
     (case convert_datetime conv df of
        Inl e \<Rightarrow> (df, Inl e)
      | Inr df' \<Rightarrow>
          (df', and_then (initial_condition_combined df' LONG_MIN LONG_MAX LAT_MIN LAT_MAX)
                  (split_and_measure geo df')))"

section \<open>Row-wise reading of the conditions\<close>

text \<open>
  What lines 29 to 62 and line 77 say about one row: each condition of the source is an
  elementwise operation on columns, and these predicates are its value at a row. A
  comparison holds at a row when it evaluates to true there.
\<close>

definition cmp_true :: "(fl \<Rightarrow> real \<Rightarrow> bool) \<Rightarrow> row \<Rightarrow> string \<Rightarrow> real \<Rightarrow> bool" where
  "cmp_true op r c v = (cell_cmp op (value_at r c) v = Inr True)"

definition row_invalid_datetime :: "row \<Rightarrow> bool" where
  "row_invalid_datetime r = cell_isna (value_at r ''pickup_datetime'')"

definition row_out_of_range :: "real \<Rightarrow> real \<Rightarrow> real \<Rightarrow> real \<Rightarrow> row \<Rightarrow> bool" where
  "row_out_of_range LONG_MIN LONG_MAX LAT_MIN LAT_MAX r =
     (cmp_true fl_lt r ''pickup_longitude'' LONG_MIN \<or> cmp_true fl_gt r ''pickup_longitude'' LONG_MAX \<or>
      cmp_true fl_lt r ''pickup_latitude'' LAT_MIN \<or> cmp_true fl_gt r ''pickup_latitude'' LAT_MAX \<or>
      cmp_true fl_lt r ''dropoff_longitude'' LONG_MIN \<or> cmp_true fl_gt r ''dropoff_longitude'' LONG_MAX \<or>
      cmp_true fl_lt r ''dropoff_latitude'' LAT_MIN \<or> cmp_true fl_gt r ''dropoff_latitude'' LAT_MAX)"

definition row_invalid_fare :: "row \<Rightarrow> bool" where
  "row_invalid_fare r = cmp_true fl_le r ''fare_amount'' 0"

definition row_nan_coordinates :: "row \<Rightarrow> bool" where
  "row_nan_coordinates r =
     (cell_isna (value_at r ''pickup_longitude'') \<or> cell_isna (value_at r ''pickup_latitude'') \<or>
      cell_isna (value_at r ''dropoff_longitude'') \<or> cell_isna (value_at r ''dropoff_latitude''))"

definition row_zero_passenger :: "row \<Rightarrow> bool" where
  "row_zero_passenger r = cmp_true fl_le r ''passenger_count'' 0"

definition row_high_passenger_count :: "row \<Rightarrow> bool" where
  "row_high_passenger_count r = cmp_true fl_gt r ''passenger_count'' 10"

definition row_invalid :: "real \<Rightarrow> real \<Rightarrow> real \<Rightarrow> real \<Rightarrow> row \<Rightarrow> bool" where
  "row_invalid LONG_MIN LONG_MAX LAT_MIN LAT_MAX r =
     (row_out_of_range LONG_MIN LONG_MAX LAT_MIN LAT_MAX r \<or> row_invalid_fare r \<or>
      row_nan_coordinates r \<or> row_zero_passenger r \<or> row_invalid_datetime r \<or>
      row_high_passenger_count r)"

definition row_invalid_distance :: "row \<Rightarrow> bool" where
  "row_invalid_distance r = cmp_true fl_le r ''distance_miles'' 0"

section \<open>Well-formed input and the library parameters\<close>

text \<open>
  The input the function is written for: the timestamp column is present, and the six
  numeric columns are present and hold numbers (\<open>NaN\<close> included).
\<close>

fun is_num :: "cell \<Rightarrow> bool" where
  "is_num (Num f) = True"
| "is_num c = False"

definition numeric_column :: "frame \<Rightarrow> string \<Rightarrow> bool" where
  "numeric_column df c = (c \<in> set (columns df) \<and> (\<forall>r \<in> set (rows df). is_num (value_at r c)))"

definition numeric_columns :: "string list" where
  "numeric_columns = [''pickup_longitude'', ''pickup_latitude'', ''dropoff_longitude'',
     ''dropoff_latitude'', ''fare_amount'', ''passenger_count'']"

definition required_columns :: "string list" where
  "required_columns = ''pickup_datetime'' # numeric_columns"

definition schema_ok :: "frame \<Rightarrow> bool" where
  "schema_ok df = (''pickup_datetime'' \<in> set (columns df) \<and>
     (\<forall>c \<in> set numeric_columns. numeric_column df c))"

text \<open>
  The geodesic routine returns a number of miles for every pair of finite coordinates
  inside the bounding box.
\<close>

definition geodesic_defined :: "geodesic \<Rightarrow> real \<Rightarrow> real \<Rightarrow> real \<Rightarrow> real \<Rightarrow> bool" where
  "geodesic_defined geo LONG_MIN LONG_MAX LAT_MIN LAT_MAX =
     (\<forall>lat1 lon1 lat2 lon2.
        LAT_MIN \<le> lat1 \<and> lat1 \<le> LAT_MAX \<and> LONG_MIN \<le> lon1 \<and> lon1 \<le> LONG_MAX \<and>
        LAT_MIN \<le> lat2 \<and> lat2 \<le> LAT_MAX \<and> LONG_MIN \<le> lon2 \<and> lon2 \<le> LONG_MAX \<longrightarrow>
        (\<exists>d. geo (Num (Fin lat1), Num (Fin lon1)) (Num (Fin lat2), Num (Fin lon2)) = Inr d \<and> d \<noteq> NaN))"

text \<open>
  The numeric columns that are present hold numbers. (With the seven required columns
  present this is \<open>schema_ok\<close>.)
\<close>

definition typed_columns :: "frame \<Rightarrow> bool" where
  "typed_columns df =
     (\<forall>c \<in> set numeric_columns. c \<in> set (columns df) \<longrightarrow> (\<forall>r \<in> set (rows df). is_num (value_at r c)))"

text \<open>
  The timestamp conversion returns on the timestamp column of the frame, and \<open>f\<close> is
  what it makes of each cell.
\<close>

definition datetime_column :: "frame \<Rightarrow> cell list" where
  "datetime_column df = map (\<lambda>r. value_at r ''pickup_datetime'') (rows df)"

definition converts :: "converter \<Rightarrow> frame \<Rightarrow> (cell \<Rightarrow> timestamp option) \<Rightarrow> bool" where
  "converts conv df f = (conv (datetime_column df) = Inr f)"

text \<open>A cell is a finite number within \<open>[lo, hi]\<close>.\<close>

fun in_range :: "real \<Rightarrow> real \<Rightarrow> cell \<Rightarrow> bool" where
  "in_range lo hi (Num (Fin x)) = (lo \<le> x \<and> x \<le> hi)"
| "in_range lo hi c = False"

section \<open>The two assignments to the caller's frame, row by row\<close>

definition add_column :: "string \<Rightarrow> string list \<Rightarrow> string list" where
  "add_column c cs = (if c \<in> set cs then cs else cs @ [c])"

definition parsed :: "(cell \<Rightarrow> timestamp option) \<Rightarrow> row \<Rightarrow> cell" where
  "parsed f r = coerce f (value_at r ''pickup_datetime'')"

definition parse_row :: "(cell \<Rightarrow> timestamp option) \<Rightarrow> row \<Rightarrow> row" where
  "parse_row f r =
     r\<lparr>cells := (cells r)(''pickup_datetime'' \<mapsto> parsed f r,
                            ''pickup_hour'' \<mapsto> dt_hour (parsed f r))\<rparr>"

definition converted :: "(cell \<Rightarrow> timestamp option) \<Rightarrow> frame \<Rightarrow> frame" where
  "converted f df =
     \<lparr>columns = add_column ''pickup_hour'' (columns df), rows = map (parse_row f) (rows df)\<rparr>"

text \<open>The distance the geodesic routine gives for a row, and the row with it stored.\<close>

definition miles :: "geodesic \<Rightarrow> row \<Rightarrow> fl" where
  "miles geo r =
     (case geo (fst (geodesic_args r)) (snd (geodesic_args r)) of Inr d \<Rightarrow> d | Inl e \<Rightarrow> NaN)"

definition with_distance :: "geodesic \<Rightarrow> row \<Rightarrow> row" where
  "with_distance geo r = r\<lparr>cells := (cells r)(''distance_miles'' \<mapsto> Num (miles geo r))\<rparr>"

text \<open>
  The survivors of the first split with their distance column: the frame on which the
  distance condition is evaluated, for a row-wise mask \<open>p\<close>.
\<close>

definition measured_frame :: "geodesic \<Rightarrow> frame \<Rightarrow> (row \<Rightarrow> bool) \<Rightarrow> frame" where
  "measured_frame geo df p =
     \<lparr>columns = add_column ''distance_miles'' (columns df),
      rows = map (with_distance geo) (filter (\<lambda>r. \<not> p r) (rows df))\<rparr>"

text \<open>The columns the function writes: they are not passed through from the input.\<close>

definition derived_columns :: "string list" where
  "derived_columns = [''pickup_datetime'', ''pickup_hour'', ''distance_miles'']"

text \<open>
  What identifies an input row in the outputs: its label and its values under the
  columns of the input that the function does not write.
\<close>

definition passthrough :: "frame \<Rightarrow> row \<Rightarrow> nat \<times> cell list" where
  "passthrough df r =
     (label r, map (value_at r) (filter (\<lambda>c. c \<notin> set derived_columns) (columns df)))"

text \<open>
  The fate of an input row, given what the conversion makes of each cell: it fails the
  first split when one of the six conditions holds of it after the timestamp
  conversion; it fails the second when it passes the first and its distance is
  \<open><= 0\<close>; it is kept when it passes both.
\<close>

definition stage_one_dropped ::
  "(cell \<Rightarrow> timestamp option) \<Rightarrow> real \<Rightarrow> real \<Rightarrow> real \<Rightarrow> real \<Rightarrow> row \<Rightarrow> bool" where
  "stage_one_dropped f LONG_MIN LONG_MAX LAT_MIN LAT_MAX r =
     row_invalid LONG_MIN LONG_MAX LAT_MIN LAT_MAX (parse_row f r)"

definition stage_two_dropped ::
  "(cell \<Rightarrow> timestamp option) \<Rightarrow> geodesic \<Rightarrow> real \<Rightarrow> real \<Rightarrow> real \<Rightarrow> real \<Rightarrow> row \<Rightarrow> bool" where
  "stage_two_dropped f geo LONG_MIN LONG_MAX LAT_MIN LAT_MAX r =
     (\<not> stage_one_dropped f LONG_MIN LONG_MAX LAT_MIN LAT_MAX r \<and>
      row_invalid_distance (with_distance geo r))"

definition row_kept ::
  "(cell \<Rightarrow> timestamp option) \<Rightarrow> geodesic \<Rightarrow> real \<Rightarrow> real \<Rightarrow> real \<Rightarrow> real \<Rightarrow> row \<Rightarrow> bool" where
  "row_kept f geo LONG_MIN LONG_MAX LAT_MIN LAT_MAX r =
     (\<not> stage_one_dropped f LONG_MIN LONG_MAX LAT_MIN LAT_MAX r \<and>
      \<not> row_invalid_distance (with_distance geo r))"

text \<open>Some row passes the first split, so the distance step has a row to work on.\<close>

definition some_row_survives ::
  "(cell \<Rightarrow> timestamp option) \<Rightarrow> frame \<Rightarrow> real \<Rightarrow> real \<Rightarrow> real \<Rightarrow> real \<Rightarrow> bool" where
  "some_row_survives f df LONG_MIN LONG_MAX LAT_MIN LAT_MAX =
     (\<exists>r \<in> set (rows df). \<not> stage_one_dropped f LONG_MIN LONG_MAX LAT_MIN LAT_MAX r)"

text \<open>
  Every condition other than the fare condition, respectively other than the two
  passenger-count conditions, is false of an input row: its timestamp parses, its
  coordinates are present and inside the bounding box, and its distance is not \<open><= 0\<close>.
\<close>

definition passes_other_than_fare ::
  "(cell \<Rightarrow> timestamp option) \<Rightarrow> geodesic \<Rightarrow> real \<Rightarrow> real \<Rightarrow> real \<Rightarrow> real \<Rightarrow> row \<Rightarrow> bool" where
  "passes_other_than_fare f geo LONG_MIN LONG_MAX LAT_MIN LAT_MAX r =
     (parsed f r \<noteq> NaT \<and> \<not> row_out_of_range LONG_MIN LONG_MAX LAT_MIN LAT_MAX r \<and>
      \<not> row_nan_coordinates r \<and> \<not> row_zero_passenger r \<and> \<not> row_high_passenger_count r \<and>
      \<not> row_invalid_distance (with_distance geo r))"

definition passes_other_than_passengers ::
  "(cell \<Rightarrow> timestamp option) \<Rightarrow> geodesic \<Rightarrow> real \<Rightarrow> real \<Rightarrow> real \<Rightarrow> real \<Rightarrow> row \<Rightarrow> bool" where
  "passes_other_than_passengers f geo LONG_MIN LONG_MAX LAT_MIN LAT_MAX r =
     (parsed f r \<noteq> NaT \<and> \<not> row_out_of_range LONG_MIN LONG_MAX LAT_MIN LAT_MAX r \<and>
      \<not> row_invalid_fare r \<and> \<not> row_nan_coordinates r \<and>
      \<not> row_invalid_distance (with_distance geo r))"

text \<open>
  Reading a result: the labels of the two returned frames, a column of the cleaned
  frame, and the cleaned frame itself (nothing is returned when the call raised).
\<close>

definition cleaned_labels :: "frame \<times> (error + frame \<times> frame) \<Rightarrow> nat list" where
  "cleaned_labels res =
     (case snd res of Inl e \<Rightarrow> [] | Inr (cleaned, dropped) \<Rightarrow> map label (rows cleaned))"

definition dropped_labels :: "frame \<times> (error + frame \<times> frame) \<Rightarrow> nat list" where
  "dropped_labels res =
     (case snd res of Inl e \<Rightarrow> [] | Inr (cleaned, dropped) \<Rightarrow> map label (rows dropped))"

definition cleaned_column :: "frame \<times> (error + frame \<times> frame) \<Rightarrow> string \<Rightarrow> error + cell list" where
  "cleaned_column res c =
     (case snd res of Inl e \<Rightarrow> Inl e | Inr (cleaned, dropped) \<Rightarrow> getcol cleaned c)"

definition cleaned_frame :: "frame \<times> (error + frame \<times> frame) \<Rightarrow> frame" where
  "cleaned_frame res =
     (case snd res of Inl e \<Rightarrow> \<lparr>columns = [], rows = []\<rparr> | Inr (cleaned, dropped) \<Rightarrow> cleaned)"

section \<open>Sample data\<close>

text \<open>
  A small dataset on which the theorems below are instantiated, with the column order of
  the ride-hailing file. \<open>sample_conv\<close> and \<open>sample_geodesic\<close> stand in for the two
  library routines there. The first never raises, parses one timestamp format and
  leaves a parsed timestamp as it is. The second is a taxicab distance at 69 miles per
  degree on finite coordinates and raises \<open>ValueError\<close> on any other, as geopy does on
  a coordinate that is not finite.
\<close>

definition trip :: "nat \<Rightarrow> cell \<Rightarrow> fl \<Rightarrow> fl \<Rightarrow> fl \<Rightarrow> fl \<Rightarrow> fl \<Rightarrow> fl \<Rightarrow> row" where
  "trip l dt plon plat dlon dlat fare pc =
     \<lparr>label = l,
      cells = [''fare_amount'' \<mapsto> Num fare, ''pickup_datetime'' \<mapsto> dt,
               ''pickup_longitude'' \<mapsto> Num plon, ''pickup_latitude'' \<mapsto> Num plat,
               ''dropoff_longitude'' \<mapsto> Num dlon, ''dropoff_latitude'' \<mapsto> Num dlat,
               ''passenger_count'' \<mapsto> Num pc]\<rparr>"

definition sample_columns :: "string list" where
  "sample_columns = [''fare_amount'', ''pickup_datetime'', ''pickup_longitude'', ''pickup_latitude'',
     ''dropoff_longitude'', ''dropoff_latitude'', ''passenger_count'']"

definition sample_frame :: frame where
  "sample_frame = \<lparr>columns = sample_columns, rows =
     [trip 0 (Str ''2015-05-07 19:52:06'') (Fin (-74.006)) (Fin 40.7128) (Fin (-73.9352)) (Fin 40.7306) (Fin 7.5) (Fin 1),
      trip 1 (Str ''not-a-date'') (Fin (-74.006)) (Fin 40.7128) (Fin (-73.9352)) (Fin 40.7306) (Fin 7.5) (Fin 1),
      trip 2 (Str ''2015-05-07 19:52:06'') (Fin (-74.006)) (Fin 40.7128) (Fin (-73.9352)) (Fin 40.7306) (Fin 0) (Fin 1),
      trip 3 (Str ''2015-05-07 19:52:06'') (Fin (-74.006)) (Fin 40.7128) (Fin (-73.9352)) (Fin 40.7306) NaN (Fin 1),
      trip 4 (Str ''2015-05-07 19:52:06'') (Fin (-74.006)) (Fin 40.7128) (Fin (-74.006)) (Fin 40.7128) (Fin 7.5) (Fin 1),
      trip 5 (Str ''2015-05-07 19:52:06'') (Fin (-74.006)) (Fin 40.7128) (Fin (-73.9352)) (Fin 40.7306) (Fin 7.5) (Fin 0),
      trip 6 (Str ''2015-05-07 19:52:06'') (Fin (-74.006)) (Fin 40.7128) (Fin (-73.9352)) (Fin 40.7306) (Fin 0.01) (Fin 10),
      trip 7 (Str ''2015-05-07 19:52:06'') (Fin (-74.006)) (Fin 40.7128) (Fin (-73.9352)) (Fin 40.7306) (Fin 7.5) (Fin 11),
      trip 8 (Str ''2015-05-07 19:52:06'') (Fin (-74.006)) (Fin 40.7128) (Fin (-73.9352)) (Fin 40.7306) (Fin 7.5) NaN,
      trip 9 (Str ''2015-05-07 19:52:06'') NaN (Fin 40.7128) (Fin (-73.9352)) (Fin 40.7306) (Fin 7.5) (Fin 1)]\<rparr>"

definition sample_parse :: "cell \<Rightarrow> timestamp option" where
  "sample_parse c =
     (case c of
        Stamp t \<Rightarrow> Some t
      | Str s \<Rightarrow> (if s = ''2015-05-07 19:52:06''
                  then Some \<lparr>year = 2015, month = 5, day = 7, hour = 19, minute = 52, second = 6\<rparr>
                  else None)
      | _ \<Rightarrow> None)"

definition sample_conv :: converter where
  "sample_conv xs = Inr sample_parse"

definition sample_geodesic :: geodesic where
  "sample_geodesic p q =
     (case (p, q) of
        ((Num (Fin lat1), Num (Fin lon1)), (Num (Fin lat2), Num (Fin lon2))) \<Rightarrow>
           Inr (Fin (69 * (\<bar>lat1 - lat2\<bar> + \<bar>lon1 - lon2\<bar>)))
      | _ \<Rightarrow> Inl ValueError)"

text \<open>
  A geodesic routine that agrees with \<open>sample_geodesic\<close> on finite coordinates and
  returns \<open>NaN\<close> instead of raising on any other.
\<close>

definition lenient_geodesic :: geodesic where
  "lenient_geodesic p q =
     (case sample_geodesic p q of Inl e \<Rightarrow> Inr NaN | Inr d \<Rightarrow> Inr d)"

text \<open>One trip whose fare is missing and which is otherwise in order.\<close>

definition nan_fare_frame :: frame where
  "nan_fare_frame = \<lparr>columns = sample_columns, rows =
     [trip 3 (Str ''2015-05-07 19:52:06'') (Fin (-74.006)) (Fin 40.7128) (Fin (-73.9352)) (Fin 40.7306) NaN (Fin 1)]\<rparr>"

text \<open>
  Datasets of which no row passes the first split: two trips, one with fare 0 and
  eleven passengers, one with a missing pickup longitude; one trip with fare 0; one
  trip whose timestamp does not parse; one trip for eleven passengers.
\<close>

definition all_invalid_frame :: frame where
  "all_invalid_frame = \<lparr>columns = sample_columns, rows =
     [trip 0 (Str ''2015-05-07 19:52:06'') (Fin (-74.006)) (Fin 40.7128) (Fin (-73.9352)) (Fin 40.7306) (Fin 0) (Fin 11),
      trip 1 (Str ''2015-05-07 19:52:06'') NaN (Fin 40.7128) (Fin (-73.9352)) (Fin 40.7306) (Fin 7.5) (Fin 1)]\<rparr>"

definition zero_fare_frame :: frame where
  "zero_fare_frame = \<lparr>columns = sample_columns, rows =
     [trip 0 (Str ''2015-05-07 19:52:06'') (Fin (-74.006)) (Fin 40.7128) (Fin (-73.9352)) (Fin 40.7306) (Fin 0) (Fin 1)]\<rparr>"

definition bad_timestamp_frame :: frame where
  "bad_timestamp_frame = \<lparr>columns = sample_columns, rows =
     [trip 0 (Str ''not-a-date'') (Fin (-74.006)) (Fin 40.7128) (Fin (-73.9352)) (Fin 40.7306) (Fin 7.5) (Fin 1)]\<rparr>"

definition crowded_frame :: frame where
  "crowded_frame = \<lparr>columns = sample_columns, rows =
     [trip 0 (Str ''2015-05-07 19:52:06'') (Fin (-74.006)) (Fin 40.7128) (Fin (-73.9352)) (Fin 40.7306) (Fin 7.5) (Fin 11)]\<rparr>"

text \<open>
  One trip that is set down where it was picked up: it passes the first split and
  fails the distance condition.
\<close>

definition zero_distance_frame :: frame where
  "zero_distance_frame = \<lparr>columns = sample_columns, rows =
     [trip 4 (Str ''2015-05-07 19:52:06'') (Fin (-74.006)) (Fin 40.7128) (Fin (-74.006)) (Fin 40.7128) (Fin 7.5) (Fin 1)]\<rparr>"

section \<open>The operations on well-formed input\<close>

lemma and_then_Inr [simp]: "and_then (Inr x) f = f x"
  by (simp add: and_then_def)

lemma and_then_Inl [simp]: "and_then (Inl e) f = Inl e"
  by (simp add: and_then_def)

lemma sequence_map_Inr:
  "(\<And>x. x \<in> set xs \<Longrightarrow> f x = Inr (g x)) \<Longrightarrow> sequence (map f xs) = Inr (map g xs)"
  by (induction xs) simp_all

lemma cell_cmp_value_at:
  "is_num (value_at r c) \<Longrightarrow> cell_cmp op (value_at r c) v = Inr (cmp_true op r c v)"
  by (cases "value_at r c") (simp_all add: cmp_true_def)

lemma series_cmp_numeric:
  assumes "\<forall>r \<in> set rs. is_num (value_at r c)"
  shows "series_cmp op (map (\<lambda>r. value_at r c) rs) v = Inr (map (\<lambda>r. cmp_true op r c v) rs)"
proof -
  have "sequence (map (\<lambda>r. cell_cmp op (value_at r c) v) rs) = Inr (map (\<lambda>r. cmp_true op r c v) rs)"
    using assms by (intro sequence_map_Inr) (simp add: cell_cmp_value_at)
  then show ?thesis by (simp add: series_cmp_def o_def)
qed

lemma getcol_present: "c \<in> set (columns df) \<Longrightarrow> getcol df c = Inr (map (\<lambda>r. value_at r c) (rows df))"
  by (simp add: getcol_def)

lemma getcol_absent: "c \<notin> set (columns df) \<Longrightarrow> getcol df c = Inl (KeyError c)"
  by (simp add: getcol_def)

lemma col_lt_numeric:
  "numeric_column df c \<Longrightarrow> col_lt df c v = Inr (map (\<lambda>r. cmp_true fl_lt r c v) (rows df))"
  by (simp add: col_lt_def numeric_column_def getcol_present series_cmp_numeric)

lemma col_gt_numeric:
  "numeric_column df c \<Longrightarrow> col_gt df c v = Inr (map (\<lambda>r. cmp_true fl_gt r c v) (rows df))"
  by (simp add: col_gt_def numeric_column_def getcol_present series_cmp_numeric)

lemma col_le_numeric:
  "numeric_column df c \<Longrightarrow> col_le df c v = Inr (map (\<lambda>r. cmp_true fl_le r c v) (rows df))"
  by (simp add: col_le_def numeric_column_def getcol_present series_cmp_numeric)

lemma col_isna_present:
  "c \<in> set (columns df) \<Longrightarrow> col_isna df c = Inr (map (\<lambda>r. cell_isna (value_at r c)) (rows df))"
  by (simp add: col_isna_def getcol_present o_def)

lemma zip_map_same: "zip (map p xs) (map q xs) = map (\<lambda>x. (p x, q x)) xs"
  by (induction xs) simp_all

lemma series_or_maps:
  "series_or (Inr (map p rs)) (Inr (map q rs)) = Inr (map (\<lambda>r. p r \<or> q r) rs)"
  by (simp add: series_or_def zip_map_same o_def)

lemma mask_filter: "map fst (filter snd (zip xs (map p xs))) = filter p xs"
  by (induction xs) simp_all

lemma mask_rows_map: "mask_rows df (map p (rows df)) = df\<lparr>rows := filter p (rows df)\<rparr>"
  by (simp add: mask_rows_def mask_filter)

lemma zip_with_map: "zip xs (map f xs) = map (\<lambda>x. (x, f x)) xs"
  by (induction xs) simp_all

lemma setcol_map:
  "setcol df c (map f (rows df)) =
     \<lparr>columns = add_column c (columns df),
      rows = map (\<lambda>r. r\<lparr>cells := (cells r)(c \<mapsto> f r)\<rparr>) (rows df)\<rparr>"
  by (simp add: setcol_def add_column_def zip_with_map o_def)

lemma value_at_upd_same [simp]: "value_at (r\<lparr>cells := (cells r)(c \<mapsto> x)\<rparr>) c = x"
  by (simp add: value_at_def)

lemma value_at_upd_other [simp]: "c' \<noteq> c \<Longrightarrow> value_at (r\<lparr>cells := (cells r)(c \<mapsto> x)\<rparr>) c' = value_at r c'"
  by (simp add: value_at_def)

lemma convert_datetime_present:
  assumes "''pickup_datetime'' \<in> set (columns df)" and "converts conv df f"
  shows "convert_datetime conv df = Inr (converted f df)"
proof -
  let ?raw = "map (\<lambda>r. value_at r ''pickup_datetime'') (rows df)"
  have td: "to_datetime conv ?raw = Inr (map (parsed f) (rows df))"
    using assms(2) by (simp add: to_datetime_def converts_def datetime_column_def parsed_def o_def)
  define df1 where "df1 = setcol df ''pickup_datetime'' (map (parsed f) (rows df))"
  have df1: "df1 = \<lparr>columns = columns df,
      rows = map (\<lambda>r. r\<lparr>cells := (cells r)(''pickup_datetime'' \<mapsto> parsed f r)\<rparr>) (rows df)\<rparr>"
    using assms(1) unfolding df1_def by (simp add: setcol_map add_column_def)
  have g1: "getcol df1 ''pickup_datetime'' = Inr (map (\<lambda>r. value_at r ''pickup_datetime'') (rows df1))"
    using assms(1) by (simp add: df1 getcol_def)
  have "setcol df1 ''pickup_hour'' (map (\<lambda>r. dt_hour (value_at r ''pickup_datetime'')) (rows df1))
          = converted f df"
    unfolding setcol_map by (simp add: df1 converted_def parse_row_def o_def)
  then show ?thesis
    using assms(1) by (simp add: convert_datetime_def getcol_present td g1 Let_def df1_def [symmetric] o_def)
qed

lemma convert_datetime_raises:
  assumes "''pickup_datetime'' \<in> set (columns df)" and "conv (datetime_column df) = Inl e"
  shows "convert_datetime conv df = Inl e"
  using assms by (simp add: convert_datetime_def getcol_present to_datetime_def datetime_column_def)

lemma numeric_column_converted:
  assumes "numeric_column df c" "c \<noteq> ''pickup_datetime''" "c \<noteq> ''pickup_hour''"
  shows "numeric_column (converted f df) c"
  using assms by (auto simp: numeric_column_def converted_def add_column_def parse_row_def value_at_def)

lemma schema_ok_converted:
  assumes "schema_ok df"
  shows "''pickup_datetime'' \<in> set (columns (converted f df))"
    and "\<forall>c \<in> set numeric_columns. numeric_column (converted f df) c"
proof -
  show "''pickup_datetime'' \<in> set (columns (converted f df))"
    using assms by (simp add: schema_ok_def converted_def add_column_def)
  show "\<forall>c \<in> set numeric_columns. numeric_column (converted f df) c"
    using assms by (auto simp: schema_ok_def numeric_columns_def intro!: numeric_column_converted)
qed

lemma initial_condition_combined_rows:
  assumes dt: "''pickup_datetime'' \<in> set (columns df)"
    and num: "\<forall>c \<in> set numeric_columns. numeric_column df c"
  shows "initial_condition_combined df LONG_MIN LONG_MAX LAT_MIN LAT_MAX =
           Inr (map (row_invalid LONG_MIN LONG_MAX LAT_MIN LAT_MAX) (rows df))"
proof -
  have n: "numeric_column df ''pickup_longitude''" "numeric_column df ''pickup_latitude''"
    "numeric_column df ''dropoff_longitude''" "numeric_column df ''dropoff_latitude''"
    "numeric_column df ''fare_amount''" "numeric_column df ''passenger_count''"
    using num by (simp_all add: numeric_columns_def)
  then have p: "''pickup_longitude'' \<in> set (columns df)" "''pickup_latitude'' \<in> set (columns df)"
    "''dropoff_longitude'' \<in> set (columns df)" "''dropoff_latitude'' \<in> set (columns df)"
    unfolding numeric_column_def by blast+
  have c1: "condition_invalid_datetime df = Inr (map row_invalid_datetime (rows df))"
    using dt by (simp add: condition_invalid_datetime_def col_isna_present row_invalid_datetime_def [abs_def])
  have c2: "condition_out_of_range df LONG_MIN LONG_MAX LAT_MIN LAT_MAX =
      Inr (map (row_out_of_range LONG_MIN LONG_MAX LAT_MIN LAT_MAX) (rows df))"
    unfolding condition_out_of_range_def
    by (simp add: n col_lt_numeric col_gt_numeric series_or_maps row_out_of_range_def [abs_def])
  have c3: "condition_invalid_fare df = Inr (map row_invalid_fare (rows df))"
    by (simp add: condition_invalid_fare_def n col_le_numeric row_invalid_fare_def [abs_def])
  have c4: "condition_nan_coordinates df = Inr (map row_nan_coordinates (rows df))"
    unfolding condition_nan_coordinates_def
    by (simp add: p col_isna_present series_or_maps row_nan_coordinates_def [abs_def])
  have c5: "condition_zero_passenger df = Inr (map row_zero_passenger (rows df))"
    by (simp add: condition_zero_passenger_def n col_le_numeric row_zero_passenger_def [abs_def])
  have c6: "condition_high_passenger_count df = Inr (map row_high_passenger_count (rows df))"
    by (simp add: condition_high_passenger_count_def n col_gt_numeric row_high_passenger_count_def [abs_def])
  show ?thesis
    unfolding initial_condition_combined_def c1 c2 c3 c4 c5 c6
    by (simp add: series_or_maps row_invalid_def [abs_def])
qed

lemma in_range_iff: "in_range lo hi c \<longleftrightarrow> (\<exists>x. c = Num (Fin x) \<and> lo \<le> x \<and> x \<le> hi)"
  by (cases "(lo, hi, c)" rule: in_range.cases) auto

lemma coordinate_in_range:
  assumes "is_num (value_at r c)" "\<not> cell_isna (value_at r c)"
    "\<not> cmp_true fl_lt r c lo" "\<not> cmp_true fl_gt r c hi"
  shows "in_range lo hi (value_at r c)"
proof (cases "value_at r c")
  case (Num f)
  with assms show ?thesis by (cases f) (auto simp: cmp_true_def)
qed (use assms in simp_all)

lemma valid_row_coordinates:
  assumes "is_num (value_at r ''pickup_latitude'')" "is_num (value_at r ''pickup_longitude'')"
    "is_num (value_at r ''dropoff_latitude'')" "is_num (value_at r ''dropoff_longitude'')"
    and "\<not> row_invalid LONG_MIN LONG_MAX LAT_MIN LAT_MAX r"
  shows "in_range LAT_MIN LAT_MAX (value_at r ''pickup_latitude'')"
    and "in_range LONG_MIN LONG_MAX (value_at r ''pickup_longitude'')"
    and "in_range LAT_MIN LAT_MAX (value_at r ''dropoff_latitude'')"
    and "in_range LONG_MIN LONG_MAX (value_at r ''dropoff_longitude'')"
  using assms by (simp_all add: row_invalid_def row_out_of_range_def row_nan_coordinates_def coordinate_in_range)

lemma geodesic_on_valid_row:
  assumes geo: "geodesic_defined geo LONG_MIN LONG_MAX LAT_MIN LAT_MAX"
    and "in_range LAT_MIN LAT_MAX (value_at r ''pickup_latitude'')"
    and "in_range LONG_MIN LONG_MAX (value_at r ''pickup_longitude'')"
    and "in_range LAT_MIN LAT_MAX (value_at r ''dropoff_latitude'')"
    and "in_range LONG_MIN LONG_MAX (value_at r ''dropoff_longitude'')"
  shows "geo (fst (geodesic_args r)) (snd (geodesic_args r)) = Inr (miles geo r)"
    and "miles geo r \<noteq> NaN"
proof -
  from assms(2-5) obtain lat1 lon1 lat2 lon2 where
    v: "value_at r ''pickup_latitude'' = Num (Fin lat1)" "value_at r ''pickup_longitude'' = Num (Fin lon1)"
       "value_at r ''dropoff_latitude'' = Num (Fin lat2)" "value_at r ''dropoff_longitude'' = Num (Fin lon2)"
    and b: "LAT_MIN \<le> lat1" "lat1 \<le> LAT_MAX" "LONG_MIN \<le> lon1" "lon1 \<le> LONG_MAX"
       "LAT_MIN \<le> lat2" "lat2 \<le> LAT_MAX" "LONG_MIN \<le> lon2" "lon2 \<le> LONG_MAX"
    unfolding in_range_iff by blast
  from geo b obtain d where
    d: "geo (Num (Fin lat1), Num (Fin lon1)) (Num (Fin lat2), Num (Fin lon2)) = Inr d" "d \<noteq> NaN"
    unfolding geodesic_defined_def by blast
  then show "geo (fst (geodesic_args r)) (snd (geodesic_args r)) = Inr (miles geo r)"
    and "miles geo r \<noteq> NaN"
    by (simp_all add: miles_def geodesic_args_def v)
qed

lemma apply_geodesic_rows:
  assumes "rows df \<noteq> []"
    and "\<And>r. r \<in> set (rows df) \<Longrightarrow> geo (fst (geodesic_args r)) (snd (geodesic_args r)) = Inr (miles geo r)"
  shows "apply_geodesic geo df = Inr (map (\<lambda>r. Num (miles geo r)) (rows df))"
proof -
  have "sequence (map (\<lambda>r. geo (fst (geodesic_args r)) (snd (geodesic_args r))) (rows df))
          = Inr (map (miles geo) (rows df))"
    using assms(2) by (intro sequence_map_Inr) simp
  with assms(1) show ?thesis
    by (simp add: apply_geodesic_def apply_args_def o_def case_prod_unfold)
qed

lemma apply_geodesic_no_rows:
  assumes "rows df = []"
  shows "apply_geodesic geo df =
           (case geo (fst probe_args) (snd probe_args) of Inl e \<Rightarrow> Inl ValueError | Inr d \<Rightarrow> Inr [])"
  using assms by (simp add: apply_geodesic_def apply_args_def case_prod_unfold split: sum.split)

lemma split_and_measure_rows:
  assumes "\<exists>r \<in> set (rows df). \<not> p r"
    and "\<And>r. r \<in> set (rows df) \<Longrightarrow> \<not> p r \<Longrightarrow>
             geo (fst (geodesic_args r)) (snd (geodesic_args r)) = Inr (miles geo r)"
  shows "split_and_measure geo df (map p (rows df)) =
     Inr ((measured_frame geo df p)\<lparr>rows := filter (\<lambda>r. \<not> row_invalid_distance r) (rows (measured_frame geo df p))\<rparr>,
          concat_frames (df\<lparr>rows := filter p (rows df)\<rparr>)
            ((measured_frame geo df p)\<lparr>rows := filter row_invalid_distance (rows (measured_frame geo df p))\<rparr>))"
proof -
  define S where "S = df\<lparr>rows := filter (\<lambda>r. \<not> p r) (rows df)\<rparr>"
  have m1: "mask_rows df (map Not (map p (rows df))) = S"
    using mask_rows_map [of df "\<lambda>r. \<not> p r"] by (simp add: S_def o_def)
  have ne: "rows S \<noteq> []"
    using assms(1) by (auto simp: S_def filter_empty_conv)
  have ag: "apply_geodesic geo S = Inr (map (\<lambda>r. Num (miles geo r)) (rows S))"
    by (rule apply_geodesic_rows [OF ne]) (simp add: S_def assms(2))
  have sc: "setcol S ''distance_miles'' (map (\<lambda>r. Num (miles geo r)) (rows S)) = measured_frame geo df p"
    unfolding setcol_map by (simp add: S_def measured_frame_def with_distance_def [abs_def])
  have nc: "numeric_column (measured_frame geo df p) ''distance_miles''"
    by (auto simp: numeric_column_def measured_frame_def add_column_def with_distance_def)
  have cl: "col_le (measured_frame geo df p) ''distance_miles'' 0
              = Inr (map row_invalid_distance (rows (measured_frame geo df p)))"
    by (simp add: col_le_numeric [OF nc] row_invalid_distance_def [abs_def])
  show ?thesis
    unfolding split_and_measure_def Let_def m1 mask_rows_map ag
    by (simp add: sc cl mask_rows_map o_def)
qed

text \<open>
  With no row left after the first split, line 71 raises as soon as the geodesic
  routine raises on the row of \<open>NaN\<close> that \<open>apply\<close> tries it on.
\<close>

lemma split_and_measure_no_survivor:
  assumes "\<forall>r \<in> set (rows df). p r"
    and "geo (fst probe_args) (snd probe_args) = Inl e"
  shows "split_and_measure geo df (map p (rows df)) = Inl ValueError"
proof -
  define S where "S = df\<lparr>rows := filter (\<lambda>r. \<not> p r) (rows df)\<rparr>"
  have m1: "mask_rows df (map Not (map p (rows df))) = S"
    using mask_rows_map [of df "\<lambda>r. \<not> p r"] by (simp add: S_def o_def)
  have "rows S = []"
    using assms(1) by (simp add: S_def filter_empty_conv)
  then have "apply_geodesic geo S = Inl ValueError"
    by (simp add: apply_geodesic_no_rows assms(2))
  then show ?thesis
    unfolding split_and_measure_def Let_def m1 by simp
qed

section \<open>The function on well-formed input, row by row\<close>

lemma geodesic_args_parse_row [simp]: "geodesic_args (parse_row f r) = geodesic_args r"
  by (simp add: geodesic_args_def parse_row_def value_at_def)

lemma miles_parse_row [simp]: "miles geo (parse_row f r) = miles geo r"
  by (simp add: miles_def)

lemma row_invalid_distance_with_distance:
  "row_invalid_distance (with_distance geo r) = fl_le (miles geo r) 0"
  by (simp add: row_invalid_distance_def with_distance_def cmp_true_def)

lemma row_invalid_distance_parse_row [simp]:
  "row_invalid_distance (with_distance geo (parse_row f r)) = row_invalid_distance (with_distance geo r)"
  by (simp add: row_invalid_distance_with_distance)

lemma concat_columns:
  "cs @ filter (\<lambda>c. c \<notin> set cs) (add_column c cs) = add_column c cs"
  by (simp add: add_column_def)

lemma clean_rows:
  assumes ok: "schema_ok df"
    and geo: "geodesic_defined geo LONG_MIN LONG_MAX LAT_MIN LAT_MAX"
    and cv: "converts conv df f"
    and sv: "some_row_survives f df LONG_MIN LONG_MAX LAT_MIN LAT_MAX"
  obtains cleaned dropped where
    "clean_uber_data conv geo df LONG_MIN LONG_MAX LAT_MIN LAT_MAX = (converted f df, Inr (cleaned, dropped))"
    "columns cleaned = add_column ''distance_miles'' (columns (converted f df))"
    "columns dropped = add_column ''distance_miles'' (columns (converted f df))"
    "rows cleaned = map (\<lambda>r. with_distance geo (parse_row f r))
        (filter (row_kept f geo LONG_MIN LONG_MAX LAT_MIN LAT_MAX) (rows df))"
    "rows dropped =
       map (\<lambda>r. reindex (columns dropped) (parse_row f r))
         (filter (stage_one_dropped f LONG_MIN LONG_MAX LAT_MIN LAT_MAX) (rows df)) @
       map (\<lambda>r. reindex (columns dropped) (with_distance geo (parse_row f r)))
         (filter (stage_two_dropped f geo LONG_MIN LONG_MAX LAT_MIN LAT_MAX) (rows df))"
proof -
  let ?D = "converted f df"
  let ?I = "row_invalid LONG_MIN LONG_MAX LAT_MIN LAT_MAX"
  let ?M = "measured_frame geo ?D ?I"
  let ?cleaned = "?M\<lparr>rows := filter (\<lambda>r. \<not> row_invalid_distance r) (rows ?M)\<rparr>"
  let ?dropped = "concat_frames (?D\<lparr>rows := filter ?I (rows ?D)\<rparr>)
            (?M\<lparr>rows := filter row_invalid_distance (rows ?M)\<rparr>)"
  have dt: "''pickup_datetime'' \<in> set (columns df)"
    using ok by (simp add: schema_ok_def)
  note sc = schema_ok_converted [OF ok, of f]
  have icc: "initial_condition_combined ?D LONG_MIN LONG_MAX LAT_MIN LAT_MAX = Inr (map ?I (rows ?D))"
    by (rule initial_condition_combined_rows [OF sc])
  have g: "geo (fst (geodesic_args r)) (snd (geodesic_args r)) = Inr (miles geo r)"
    if "r \<in> set (rows ?D)" "\<not> ?I r" for r
  proof -
    have "is_num (value_at r c)" if "c \<in> set numeric_columns" for c
      using sc(2) that \<open>r \<in> set (rows ?D)\<close> by (auto simp: numeric_column_def)
    then have "is_num (value_at r ''pickup_latitude'')" "is_num (value_at r ''pickup_longitude'')"
      "is_num (value_at r ''dropoff_latitude'')" "is_num (value_at r ''dropoff_longitude'')"
      by (simp_all add: numeric_columns_def)
    from valid_row_coordinates [OF this \<open>\<not> ?I r\<close>] show ?thesis
      by (rule geodesic_on_valid_row [OF geo])
  qed
  have res: "clean_uber_data conv geo df LONG_MIN LONG_MAX LAT_MIN LAT_MAX = (?D, Inr (?cleaned, ?dropped))"
  proof -
    have "\<exists>r \<in> set (rows ?D). \<not> ?I r"
      using sv by (simp add: some_row_survives_def stage_one_dropped_def converted_def)
    then have "split_and_measure geo ?D (map ?I (rows ?D)) = Inr (?cleaned, ?dropped)"
      by (rule split_and_measure_rows) (rule g)
    then show ?thesis
      by (simp add: clean_uber_data_def convert_datetime_present [OF dt cv] icc)
  qed
  have cc: "columns ?cleaned = add_column ''distance_miles'' (columns ?D)"
    by (simp add: measured_frame_def)
  have cd: "columns ?dropped = add_column ''distance_miles'' (columns ?D)"
    by (simp add: concat_frames_def measured_frame_def Let_def concat_columns)
  have rc: "rows ?cleaned = map (\<lambda>r. with_distance geo (parse_row f r))
        (filter (row_kept f geo LONG_MIN LONG_MAX LAT_MIN LAT_MAX) (rows df))"
    by (simp add: measured_frame_def converted_def filter_map o_def row_kept_def [abs_def] stage_one_dropped_def [abs_def])
  have rd: "rows ?dropped =
       map (\<lambda>r. reindex (columns ?dropped) (parse_row f r))
         (filter (stage_one_dropped f LONG_MIN LONG_MAX LAT_MIN LAT_MAX) (rows df)) @
       map (\<lambda>r. reindex (columns ?dropped) (with_distance geo (parse_row f r)))
         (filter (stage_two_dropped f geo LONG_MIN LONG_MAX LAT_MIN LAT_MAX) (rows df))"
    unfolding cd
    by (simp add: concat_frames_def Let_def measured_frame_def concat_columns converted_def filter_map o_def
        stage_two_dropped_def [abs_def] stage_one_dropped_def [abs_def] conj_commute)
  from res cc cd rc rd show thesis by (rule that)
qed

text \<open>
  The other case: when every row fails the first split and the geodesic routine raises
  on missing coordinates, the call raises \<open>ValueError\<close> at line 71 and returns no frames.
\<close>

lemma clean_without_survivor:
  assumes ok: "schema_ok df" and cv: "converts conv df f"
    and none: "\<not> some_row_survives f df LONG_MIN LONG_MAX LAT_MIN LAT_MAX"
    and probe: "geo (fst probe_args) (snd probe_args) = Inl e"
  shows "clean_uber_data conv geo df LONG_MIN LONG_MAX LAT_MIN LAT_MAX = (converted f df, Inl ValueError)"
proof -
  let ?D = "converted f df"
  let ?I = "row_invalid LONG_MIN LONG_MAX LAT_MIN LAT_MAX"
  have dt: "''pickup_datetime'' \<in> set (columns df)"
    using ok by (simp add: schema_ok_def)
  have icc: "initial_condition_combined ?D LONG_MIN LONG_MAX LAT_MIN LAT_MAX = Inr (map ?I (rows ?D))"
    by (rule initial_condition_combined_rows [OF schema_ok_converted [OF ok]])
  have "\<forall>r \<in> set (rows ?D). ?I r"
    using none by (simp add: some_row_survives_def stage_one_dropped_def converted_def)
  then have "split_and_measure geo ?D (map ?I (rows ?D)) = Inl ValueError"
    using probe by (rule split_and_measure_no_survivor)
  then show ?thesis
    by (simp add: clean_uber_data_def convert_datetime_present [OF dt cv] icc)
qed

section \<open>The sample data is well-formed\<close>

lemma schema_ok_sample: "schema_ok sample_frame"
  by (simp add: schema_ok_def sample_frame_def sample_columns_def numeric_columns_def numeric_column_def
      trip_def value_at_def)

lemma geodesic_defined_sample: "geodesic_defined sample_geodesic lo hi la lb"
  by (simp add: geodesic_defined_def sample_geodesic_def)

lemma converts_sample: "converts sample_conv df sample_parse"
  by (simp add: converts_def sample_conv_def)

lemmas sample_row_eval = sample_frame_def trip_def value_at_def parsed_def coerce_def sample_parse_def
  passes_other_than_fare_def passes_other_than_passengers_def row_out_of_range_def
  row_invalid_fare_def row_nan_coordinates_def row_zero_passenger_def row_high_passenger_count_def
  row_invalid_datetime_def row_invalid_def row_invalid_distance_def cmp_true_def with_distance_def
  miles_def geodesic_args_def sample_geodesic_def parse_row_def stage_one_dropped_def

lemma some_row_survives_sample:
  "some_row_survives sample_parse sample_frame (-74.3) (-73.7) 40.5 40.9"
proof -
  have "rows sample_frame ! 0 \<in> set (rows sample_frame)"
    by (simp add: sample_frame_def)
  moreover have "\<not> stage_one_dropped sample_parse (-74.3) (-73.7) 40.5 40.9 (rows sample_frame ! 0)"
    by (simp add: sample_row_eval)
  ultimately show ?thesis
    unfolding some_row_survives_def by blast
qed

lemmas sample_eval = clean_uber_data_def convert_datetime_def getcol_def setcol_def
  and_then_def value_at_def to_datetime_def coerce_def initial_condition_combined_def
  condition_invalid_datetime_def condition_out_of_range_def condition_invalid_fare_def
  condition_nan_coordinates_def condition_zero_passenger_def condition_high_passenger_count_def
  col_lt_def col_gt_def col_le_def col_isna_def series_cmp_def series_or_def split_and_measure_def
  mask_rows_def apply_geodesic_def apply_args_def probe_args_def geodesic_args_def concat_frames_def
  reindex_def sample_columns_def trip_def sample_conv_def sample_parse_def sample_geodesic_def

lemma sample_cleaned_labels:
  "cleaned_labels (clean_uber_data sample_conv sample_geodesic sample_frame (-74.3) (-73.7) 40.5 40.9)
     = [0, 3, 6, 8]"
  by (simp add: cleaned_labels_def sample_frame_def sample_eval)

lemma sample_dropped_labels:
  "dropped_labels (clean_uber_data sample_conv sample_geodesic sample_frame (-74.3) (-73.7) 40.5 40.9)
     = [1, 2, 5, 7, 9, 4]"
  by (simp add: dropped_labels_def sample_frame_def sample_eval)

lemma distinct_sample: "distinct (map label (rows sample_frame))"
  by (simp add: sample_frame_def trip_def)

section \<open>Partition of the input\<close>

lemma passthrough_parse_row [simp]: "passthrough df (parse_row f r) = passthrough df r"
  by (simp add: passthrough_def parse_row_def derived_columns_def value_at_def)

lemma passthrough_with_distance [simp]: "passthrough df (with_distance geo r) = passthrough df r"
  by (simp add: passthrough_def with_distance_def derived_columns_def value_at_def)

lemma value_at_reindex: "c \<in> set cs \<Longrightarrow> value_at (reindex cs r) c = value_at r c"
  by (simp add: reindex_def value_at_def)

lemma label_reindex [simp]: "label (reindex cs r) = label r"
  by (simp add: reindex_def)

lemma passthrough_reindex: "set (columns df) \<subseteq> set cs \<Longrightarrow> passthrough df (reindex cs r) = passthrough df r"
  by (auto simp: passthrough_def value_at_reindex)

lemma columns_subset_output:
  "set (columns df) \<subseteq> set (add_column ''distance_miles'' (columns (converted f df)))"
  by (auto simp: add_column_def converted_def)

lemma three_way_partition:
  assumes "\<And>x. x \<in> set xs \<Longrightarrow> (K x \<and> \<not> A x \<and> \<not> B x) \<or> (\<not> K x \<and> A x \<and> \<not> B x) \<or> (\<not> K x \<and> \<not> A x \<and> B x)"
  shows "mset (map f (filter K xs)) + (mset (map f (filter A xs)) + mset (map f (filter B xs))) = mset (map f xs)"
  using assms by (induction xs) auto

lemma fate_exclusive:
  "(row_kept f geo a b c d r \<and> \<not> stage_one_dropped f a b c d r \<and> \<not> stage_two_dropped f geo a b c d r) \<or>
   (\<not> row_kept f geo a b c d r \<and> stage_one_dropped f a b c d r \<and> \<not> stage_two_dropped f geo a b c d r) \<or>
   (\<not> row_kept f geo a b c d r \<and> \<not> stage_one_dropped f a b c d r \<and> stage_two_dropped f geo a b c d r)"
  by (auto simp: row_kept_def stage_two_dropped_def)

lemma outputs_passthrough:
  assumes "schema_ok df" "geodesic_defined geo LONG_MIN LONG_MAX LAT_MIN LAT_MAX"
    "converts conv df f" "some_row_survives f df LONG_MIN LONG_MAX LAT_MIN LAT_MAX"
  obtains cleaned dropped where
    "clean_uber_data conv geo df LONG_MIN LONG_MAX LAT_MIN LAT_MAX = (converted f df, Inr (cleaned, dropped))"
    "map (passthrough df) (rows cleaned) =
       map (passthrough df) (filter (row_kept f geo LONG_MIN LONG_MAX LAT_MIN LAT_MAX) (rows df))"
    "map (passthrough df) (rows dropped) =
       map (passthrough df) (filter (stage_one_dropped f LONG_MIN LONG_MAX LAT_MIN LAT_MAX) (rows df)) @
       map (passthrough df) (filter (stage_two_dropped f geo LONG_MIN LONG_MAX LAT_MIN LAT_MAX) (rows df))"
proof -
  from assms obtain cleaned dropped where
    r: "clean_uber_data conv geo df LONG_MIN LONG_MAX LAT_MIN LAT_MAX = (converted f df, Inr (cleaned, dropped))"
    and cd: "columns dropped = add_column ''distance_miles'' (columns (converted f df))"
    and rc: "rows cleaned = map (\<lambda>r. with_distance geo (parse_row f r))
        (filter (row_kept f geo LONG_MIN LONG_MAX LAT_MIN LAT_MAX) (rows df))"
    and rd: "rows dropped =
       map (\<lambda>r. reindex (columns dropped) (parse_row f r))
         (filter (stage_one_dropped f LONG_MIN LONG_MAX LAT_MIN LAT_MAX) (rows df)) @
       map (\<lambda>r. reindex (columns dropped) (with_distance geo (parse_row f r)))
         (filter (stage_two_dropped f geo LONG_MIN LONG_MAX LAT_MIN LAT_MAX) (rows df))"
    by (rule clean_rows)
  have sub: "set (columns df) \<subseteq> set (columns dropped)"
    unfolding cd by (rule columns_subset_output)
  have 1: "map (passthrough df) (rows cleaned) =
       map (passthrough df) (filter (row_kept f geo LONG_MIN LONG_MAX LAT_MIN LAT_MAX) (rows df))"
    by (simp add: rc o_def)
  have 2: "map (passthrough df) (rows dropped) =
       map (passthrough df) (filter (stage_one_dropped f LONG_MIN LONG_MAX LAT_MIN LAT_MAX) (rows df)) @
       map (passthrough df) (filter (stage_two_dropped f geo LONG_MIN LONG_MAX LAT_MIN LAT_MAX) (rows df))"
    by (subst rd) (simp add: o_def passthrough_reindex [OF sub])
  from r 1 2 show thesis by (rule that)
qed

lemma labels_from_passthrough: "map label rs = map fst (map (passthrough df) rs)"
  by (simp add: passthrough_def o_def)

text \<open>
  When some row passes the first split the call returns, and its two frames partition
  the input: their lengths add up to the length of the input, and their rows together
  are exactly the input rows (label and passed-through cells), each as often as it
  occurs in the input.
\<close>

lemma partition_when_some_row_survives:
  assumes "schema_ok df" and "geodesic_defined geo LONG_MIN LONG_MAX LAT_MIN LAT_MAX"
    and "converts conv df f" and "some_row_survives f df LONG_MIN LONG_MAX LAT_MIN LAT_MAX"
  shows "\<exists>df' cleaned dropped.
           clean_uber_data conv geo df LONG_MIN LONG_MAX LAT_MIN LAT_MAX = (df', Inr (cleaned, dropped)) \<and>
           length (rows cleaned) + length (rows dropped) = length (rows df) \<and>
           mset (map (passthrough df) (rows cleaned)) + mset (map (passthrough df) (rows dropped))
             = mset (map (passthrough df) (rows df)) \<and>
           (distinct (map label (rows df)) \<longrightarrow> distinct (map label (rows cleaned @ rows dropped)))"
proof -
  let ?K = "row_kept f geo LONG_MIN LONG_MAX LAT_MIN LAT_MAX"
  let ?A = "stage_one_dropped f LONG_MIN LONG_MAX LAT_MIN LAT_MAX"
  let ?B = "stage_two_dropped f geo LONG_MIN LONG_MAX LAT_MIN LAT_MAX"
  from assms obtain cleaned dropped where
    r: "clean_uber_data conv geo df LONG_MIN LONG_MAX LAT_MIN LAT_MAX = (converted f df, Inr (cleaned, dropped))"
    and c: "map (passthrough df) (rows cleaned) = map (passthrough df) (filter ?K (rows df))"
    and d: "map (passthrough df) (rows dropped) =
       map (passthrough df) (filter ?A (rows df)) @ map (passthrough df) (filter ?B (rows df))"
    by (rule outputs_passthrough)
  have m: "mset (map (passthrough df) (rows cleaned)) + mset (map (passthrough df) (rows dropped))
             = mset (map (passthrough df) (rows df))"
    unfolding c d mset_append by (rule three_way_partition) (rule fate_exclusive)
  then have "size (mset (map (passthrough df) (rows cleaned)) + mset (map (passthrough df) (rows dropped)))
             = size (mset (map (passthrough df) (rows df)))"
    by simp
  then have l: "length (rows cleaned) + length (rows dropped) = length (rows df)"
    by simp
  have "mset (map label (rows cleaned @ rows dropped)) = mset (map label (rows df))"
    using arg_cong [OF m, of "image_mset fst"] by (simp add: multiset.map_comp passthrough_def o_def)
  then have "distinct (map label (rows cleaned @ rows dropped)) = distinct (map label (rows df))"
    by (rule mset_eq_imp_distinct_iff)
  with r m l show ?thesis by blast
qed

text \<open>
  C1. The partition fails where no row passes the first split. On a dataset of two
  trips, one failing two conditions (fare 0, eleven passengers) and one with a
  missing pickup longitude, the call raises \<open>ValueError\<close> at line 71: it returns
  neither a cleaned nor a dropped frame, so neither row appears in dropped.
\<close>

theorem no_survivor_no_partition:
  "map label (rows all_invalid_frame) = [0, 1] \<and>
   snd (clean_uber_data sample_conv sample_geodesic all_invalid_frame (-74.3) (-73.7) 40.5 40.9)
     = Inl ValueError \<and>
   dropped_labels (clean_uber_data sample_conv sample_geodesic all_invalid_frame (-74.3) (-73.7) 40.5 40.9)
     = []"
  by (simp add: dropped_labels_def all_invalid_frame_def sample_eval)

section \<open>Validity of the cleaned rows\<close>

lemma value_at_parse_row:
  "c \<noteq> ''pickup_datetime'' \<Longrightarrow> c \<noteq> ''pickup_hour'' \<Longrightarrow> value_at (parse_row f r) c = value_at r c"
  by (simp add: parse_row_def value_at_def)

lemma value_at_parse_row_datetime: "value_at (parse_row f r) ''pickup_datetime'' = parsed f r"
  by (simp add: parse_row_def value_at_def)

lemma value_at_with_distance:
  "c \<noteq> ''distance_miles'' \<Longrightarrow> value_at (with_distance geo r) c = value_at r c"
  by (simp add: with_distance_def value_at_def)

lemma value_at_with_distance_miles: "value_at (with_distance geo r) ''distance_miles'' = Num (miles geo r)"
  by (simp add: with_distance_def value_at_def)

lemma parsed_cases: "parsed f r = NaT \<or> (\<exists>t. parsed f r = Stamp t)"
  by (simp add: parsed_def coerce_def split: option.split)

lemma not_le_zero: "\<not> fl_le f 0 \<Longrightarrow> f = NaN \<or> fl_gt f 0"
  by (cases f) auto

lemma passenger_count_range:
  assumes "\<not> fl_le p 0" "\<not> fl_gt p 10"
  shows "p = NaN \<or> (\<exists>x. p = Fin x \<and> 0 < x \<and> x \<le> 10 \<and> (x \<in> \<int> \<longrightarrow> 1 \<le> x))"
proof (cases p)
  case (Fin x)
  have "1 \<le> x" if "x \<in> \<int>" "0 < x"
  proof -
    from that(1) obtain k :: int where "x = of_int k" by (rule Ints_cases)
    with that(2) show ?thesis by simp
  qed
  with Fin assms show ?thesis by auto
qed (use assms in simp_all)

lemma numeric_cell: "is_num c \<Longrightarrow> \<exists>f. c = Num f"
  by (cases c) simp_all

lemma schema_ok_is_num:
  assumes "schema_ok df" "r \<in> set (rows df)" "c \<in> set numeric_columns"
  shows "is_num (value_at r c)"
  using assms by (auto simp: schema_ok_def numeric_column_def)

text \<open>What holds of an input row that is kept, read off the row as it is in the cleaned frame.\<close>

lemma kept_row_valid:
  assumes ok: "schema_ok df" and geo: "geodesic_defined geo LONG_MIN LONG_MAX LAT_MIN LAT_MAX"
    and r: "r \<in> set (rows df)" and k: "row_kept f geo LONG_MIN LONG_MAX LAT_MIN LAT_MAX r"
  defines "r' \<equiv> with_distance geo (parse_row f r)"
  shows "\<exists>t. value_at r' ''pickup_datetime'' = Stamp t"
    and "in_range LONG_MIN LONG_MAX (value_at r' ''pickup_longitude'')"
    and "in_range LAT_MIN LAT_MAX (value_at r' ''pickup_latitude'')"
    and "in_range LONG_MIN LONG_MAX (value_at r' ''dropoff_longitude'')"
    and "in_range LAT_MIN LAT_MAX (value_at r' ''dropoff_latitude'')"
    and "\<exists>f. value_at r' ''fare_amount'' = Num f \<and> (f = NaN \<or> fl_gt f 0)"
    and "\<exists>p. value_at r' ''passenger_count'' = Num p \<and>
           (p = NaN \<or> (\<exists>x. p = Fin x \<and> 0 < x \<and> x \<le> 10 \<and> (x \<in> \<int> \<longrightarrow> 1 \<le> x)))"
    and "\<exists>d. value_at r' ''distance_miles'' = Num d \<and> fl_gt d 0"
proof -
  let ?p = "parse_row f r"
  have v: "value_at r' c = value_at r c" if "c \<in> set numeric_columns" for c
    using that by (auto simp: r'_def numeric_columns_def value_at_with_distance value_at_parse_row)
  have vp: "value_at ?p c = value_at r c" if "c \<in> set numeric_columns" for c
    using that by (auto simp: numeric_columns_def value_at_parse_row)
  have n: "is_num (value_at r c)" if "c \<in> set numeric_columns" for c
    using schema_ok_is_num [OF ok r that] .
  from k have inv: "\<not> row_invalid LONG_MIN LONG_MAX LAT_MIN LAT_MAX ?p"
    and dist: "\<not> fl_le (miles geo r) 0"
    by (simp_all add: row_kept_def stage_one_dropped_def row_invalid_distance_with_distance)
  from inv have "parsed f r \<noteq> NaT"
    by (auto simp: row_invalid_def row_invalid_datetime_def value_at_parse_row_datetime)
  with parsed_cases [of f r] show "\<exists>t. value_at r' ''pickup_datetime'' = Stamp t"
    by (auto simp: r'_def value_at_with_distance value_at_parse_row_datetime)
  have c: "in_range LAT_MIN LAT_MAX (value_at ?p ''pickup_latitude'')"
    "in_range LONG_MIN LONG_MAX (value_at ?p ''pickup_longitude'')"
    "in_range LAT_MIN LAT_MAX (value_at ?p ''dropoff_latitude'')"
    "in_range LONG_MIN LONG_MAX (value_at ?p ''dropoff_longitude'')"
    by (rule valid_row_coordinates [OF _ _ _ _ inv]; simp add: vp n numeric_columns_def)+
  then show "in_range LONG_MIN LONG_MAX (value_at r' ''pickup_longitude'')"
    "in_range LAT_MIN LAT_MAX (value_at r' ''pickup_latitude'')"
    "in_range LONG_MIN LONG_MAX (value_at r' ''dropoff_longitude'')"
    "in_range LAT_MIN LAT_MAX (value_at r' ''dropoff_latitude'')"
    by (simp_all add: v vp numeric_columns_def)
  from n [of "''fare_amount''"] obtain f where f: "value_at r ''fare_amount'' = Num f"
    by (auto simp: numeric_columns_def dest: numeric_cell)
  from inv have "\<not> fl_le f 0"
    by (simp add: row_invalid_def row_invalid_fare_def cmp_true_def vp numeric_columns_def f)
  then show "\<exists>f. value_at r' ''fare_amount'' = Num f \<and> (f = NaN \<or> fl_gt f 0)"
    by (simp add: v numeric_columns_def f not_le_zero)
  from n [of "''passenger_count''"] obtain p where p: "value_at r ''passenger_count'' = Num p"
    by (auto simp: numeric_columns_def dest: numeric_cell)
  from inv have "\<not> fl_le p 0" "\<not> fl_gt p 10"
    by (simp_all add: row_invalid_def row_zero_passenger_def row_high_passenger_count_def cmp_true_def vp
        numeric_columns_def p)
  then show "\<exists>p. value_at r' ''passenger_count'' = Num p \<and>
           (p = NaN \<or> (\<exists>x. p = Fin x \<and> 0 < x \<and> x \<le> 10 \<and> (x \<in> \<int> \<longrightarrow> 1 \<le> x)))"
    by (simp add: v numeric_columns_def p passenger_count_range)
  have "miles geo ?p \<noteq> NaN"
    by (rule geodesic_on_valid_row(2) [OF geo c])
  with dist not_le_zero [of "miles geo r"] show "\<exists>d. value_at r' ''distance_miles'' = Num d \<and> fl_gt d 0"
    by (simp add: r'_def value_at_with_distance_miles)
qed

text \<open>
  C2, as the code has it. On a well-formed dataset of which some row passes the first
  split the call returns, and every row of the cleaned frame has a parsed timestamp, four finite coordinates inside the bounding box and a distance
  \<open>> 0\<close>; its fare is \<open>> 0\<close> or missing (\<open>NaN\<close>), and its passenger count is in
  \<open>(0, 10]\<close>, hence between 1 and 10 when it is an integer, or missing (\<open>NaN\<close>).
\<close>

theorem cleaned_rows_valid:
  assumes "schema_ok df" and "geodesic_defined geo LONG_MIN LONG_MAX LAT_MIN LAT_MAX"
    and "converts conv df f" and "some_row_survives f df LONG_MIN LONG_MAX LAT_MIN LAT_MAX"
  shows "\<exists>df' cleaned dropped.
           clean_uber_data conv geo df LONG_MIN LONG_MAX LAT_MIN LAT_MAX = (df', Inr (cleaned, dropped)) \<and>
           (\<forall>r \<in> set (rows cleaned).
              (\<exists>t. value_at r ''pickup_datetime'' = Stamp t) \<and>
              in_range LONG_MIN LONG_MAX (value_at r ''pickup_longitude'') \<and>
              in_range LAT_MIN LAT_MAX (value_at r ''pickup_latitude'') \<and>
              in_range LONG_MIN LONG_MAX (value_at r ''dropoff_longitude'') \<and>
              in_range LAT_MIN LAT_MAX (value_at r ''dropoff_latitude'') \<and>
              (\<exists>f. value_at r ''fare_amount'' = Num f \<and> (f = NaN \<or> fl_gt f 0)) \<and>
              (\<exists>p. value_at r ''passenger_count'' = Num p \<and>
                 (p = NaN \<or> (\<exists>x. p = Fin x \<and> 0 < x \<and> x \<le> 10 \<and> (x \<in> \<int> \<longrightarrow> 1 \<le> x)))) \<and>
              (\<exists>d. value_at r ''distance_miles'' = Num d \<and> fl_gt d 0))"
proof -
  from assms obtain cleaned dropped where
    r: "clean_uber_data conv geo df LONG_MIN LONG_MAX LAT_MIN LAT_MAX = (converted f df, Inr (cleaned, dropped))"
    and rc: "rows cleaned = map (\<lambda>r. with_distance geo (parse_row f r))
        (filter (row_kept f geo LONG_MIN LONG_MAX LAT_MIN LAT_MAX) (rows df))"
    by (rule clean_rows)
  have "(\<exists>t. value_at r' ''pickup_datetime'' = Stamp t) \<and>
        in_range LONG_MIN LONG_MAX (value_at r' ''pickup_longitude'') \<and>
        in_range LAT_MIN LAT_MAX (value_at r' ''pickup_latitude'') \<and>
        in_range LONG_MIN LONG_MAX (value_at r' ''dropoff_longitude'') \<and>
        in_range LAT_MIN LAT_MAX (value_at r' ''dropoff_latitude'') \<and>
        (\<exists>f. value_at r' ''fare_amount'' = Num f \<and> (f = NaN \<or> fl_gt f 0)) \<and>
        (\<exists>p. value_at r' ''passenger_count'' = Num p \<and>
           (p = NaN \<or> (\<exists>x. p = Fin x \<and> 0 < x \<and> x \<le> 10 \<and> (x \<in> \<int> \<longrightarrow> 1 \<le> x)))) \<and>
        (\<exists>d. value_at r' ''distance_miles'' = Num d \<and> fl_gt d 0)"
    if "r' \<in> set (rows cleaned)" for r'
  proof -
    from that obtain r0 where r0: "r0 \<in> set (rows df)"
      "row_kept f geo LONG_MIN LONG_MAX LAT_MIN LAT_MAX r0"
      and r': "r' = with_distance geo (parse_row f r0)"
      unfolding rc by auto
    show ?thesis
      unfolding r' by (intro conjI kept_row_valid [OF assms(1,2) r0])
  qed
  with r show ?thesis by blast
qed

theorem cleaned_rows_valid_witness:
  "schema_ok sample_frame \<and> geodesic_defined sample_geodesic (-74.3) (-73.7) 40.5 40.9 \<and>
   converts sample_conv sample_frame sample_parse \<and>
   some_row_survives sample_parse sample_frame (-74.3) (-73.7) 40.5 40.9 \<and>
   (\<exists>df' cleaned dropped.
      clean_uber_data sample_conv sample_geodesic sample_frame (-74.3) (-73.7) 40.5 40.9
        = (df', Inr (cleaned, dropped)) \<and>
      map label (rows cleaned) = [0, 3, 6, 8] \<and>
      (\<forall>r \<in> set (rows cleaned).
         (\<exists>t. value_at r ''pickup_datetime'' = Stamp t) \<and>
         in_range (-74.3) (-73.7) (value_at r ''pickup_longitude'') \<and>
         in_range 40.5 40.9 (value_at r ''pickup_latitude'') \<and>
         in_range (-74.3) (-73.7) (value_at r ''dropoff_longitude'') \<and>
         in_range 40.5 40.9 (value_at r ''dropoff_latitude'') \<and>
         (\<exists>f. value_at r ''fare_amount'' = Num f \<and> (f = NaN \<or> fl_gt f 0)) \<and>
         (\<exists>p. value_at r ''passenger_count'' = Num p \<and>
            (p = NaN \<or> (\<exists>x. p = Fin x \<and> 0 < x \<and> x \<le> 10 \<and> (x \<in> \<int> \<longrightarrow> 1 \<le> x)))) \<and>
         (\<exists>d. value_at r ''distance_miles'' = Num d \<and> fl_gt d 0)))"
proof -
  from cleaned_rows_valid [OF schema_ok_sample geodesic_defined_sample converts_sample
      some_row_survives_sample]
  obtain df' cleaned dropped where
    r: "clean_uber_data sample_conv sample_geodesic sample_frame (-74.3) (-73.7) 40.5 40.9
        = (df', Inr (cleaned, dropped))"
    and v: "\<forall>r \<in> set (rows cleaned).
         (\<exists>t. value_at r ''pickup_datetime'' = Stamp t) \<and>
         in_range (-74.3) (-73.7) (value_at r ''pickup_longitude'') \<and>
         in_range 40.5 40.9 (value_at r ''pickup_latitude'') \<and>
         in_range (-74.3) (-73.7) (value_at r ''dropoff_longitude'') \<and>
         in_range 40.5 40.9 (value_at r ''dropoff_latitude'') \<and>
         (\<exists>f. value_at r ''fare_amount'' = Num f \<and> (f = NaN \<or> fl_gt f 0)) \<and>
         (\<exists>p. value_at r ''passenger_count'' = Num p \<and>
            (p = NaN \<or> (\<exists>x. p = Fin x \<and> 0 < x \<and> x \<le> 10 \<and> (x \<in> \<int> \<longrightarrow> 1 \<le> x)))) \<and>
         (\<exists>d. value_at r ''distance_miles'' = Num d \<and> fl_gt d 0)"
    by blast
  from sample_cleaned_labels have l: "map label (rows cleaned) = [0, 3, 6, 8]"
    unfolding cleaned_labels_def r by simp
  show ?thesis
    by (intro conjI schema_ok_sample geodesic_defined_sample converts_sample some_row_survives_sample
        exI [of _ df'] exI [of _ cleaned] exI [of _ dropped] r l v)
qed

text \<open>
  The claim as the specification states it fails on a trip whose fare is missing: the
  comparison \<open>fare_amount <= 0\<close> is false on \<open>NaN\<close>, the trip stays in the cleaned
  frame, and its fare is not \<open>> 0\<close>.
\<close>

theorem cleaned_fare_positive_counterexample:
  "cleaned_labels (clean_uber_data sample_conv sample_geodesic nan_fare_frame (-74.3) (-73.7) 40.5 40.9) = [3] \<and>
   cleaned_column (clean_uber_data sample_conv sample_geodesic nan_fare_frame (-74.3) (-73.7) 40.5 40.9)
     ''fare_amount'' = Inr [Num NaN] \<and>
   \<not> fl_gt NaN 0"
  by (simp add: cleaned_labels_def cleaned_column_def nan_fare_frame_def sample_eval)

section \<open>What the call does to the caller's frame\<close>

lemma sample_has_datetime: "''pickup_datetime'' \<in> set (columns sample_frame)"
  by (simp add: sample_frame_def sample_columns_def)

text \<open>
  C3, as the code has it. Lines 25 and 26 assign to the caller's frame: whenever the
  timestamp column is present and the conversion returns, the frame the caller holds
  after the call has \<open>pickup_datetime\<close> replaced by the parsed timestamps and
  \<open>pickup_hour\<close> added (or overwritten), and nothing else changed: the same rows in the
  same order with the same labels and the same cells under every other column. This
  is so whether or not the rest of the call raises. \<open>distance_miles\<close> is not added to
  it: that column is written to the returned copies only.
\<close>

theorem input_after_call:
  assumes "''pickup_datetime'' \<in> set (columns df)" and "converts conv df f"
  shows "fst (clean_uber_data conv geo df LONG_MIN LONG_MAX LAT_MIN LAT_MAX) =
           \<lparr>columns = (if ''pickup_hour'' \<in> set (columns df) then columns df
                        else columns df @ [''pickup_hour'']),
            rows = map (\<lambda>r. r\<lparr>cells := (cells r)(''pickup_datetime'' \<mapsto> parsed f r,
                                                   ''pickup_hour'' \<mapsto> dt_hour (parsed f r))\<rparr>)
                     (rows df)\<rparr> \<and>
         (''distance_miles'' \<in> set (columns (fst (clean_uber_data conv geo df LONG_MIN LONG_MAX LAT_MIN LAT_MAX)))
            \<longleftrightarrow> ''distance_miles'' \<in> set (columns df))"
proof -
  have "fst (clean_uber_data conv geo df LONG_MIN LONG_MAX LAT_MIN LAT_MAX) = converted f df"
    by (simp add: clean_uber_data_def convert_datetime_present [OF assms])
  then show ?thesis
    by (auto simp: converted_def add_column_def parse_row_def [abs_def])
qed

theorem input_after_call_witness:
  "''pickup_datetime'' \<in> set (columns sample_frame) \<and> converts sample_conv sample_frame sample_parse \<and>
   fst (clean_uber_data sample_conv sample_geodesic sample_frame (-74.3) (-73.7) 40.5 40.9) =
     \<lparr>columns = (if ''pickup_hour'' \<in> set (columns sample_frame) then columns sample_frame
                  else columns sample_frame @ [''pickup_hour'']),
      rows = map (\<lambda>r. r\<lparr>cells := (cells r)(''pickup_datetime'' \<mapsto> parsed sample_parse r,
                                             ''pickup_hour'' \<mapsto> dt_hour (parsed sample_parse r))\<rparr>)
               (rows sample_frame)\<rparr> \<and>
   ''distance_miles'' \<notin> set (columns sample_frame) \<and>
   ''distance_miles'' \<notin> set (columns (fst (clean_uber_data sample_conv sample_geodesic sample_frame (-74.3) (-73.7) 40.5 40.9)))"
proof -
  have d: "''distance_miles'' \<notin> set (columns sample_frame)"
    by (simp add: sample_frame_def sample_columns_def)
  from input_after_call [OF sample_has_datetime converts_sample,
      of sample_geodesic "-74.3" "-73.7" "40.5" "40.9"] d
  show ?thesis
    using sample_has_datetime converts_sample [of sample_frame] by blast
qed

text \<open>
  The claim as the specification states it fails: after the call the caller's frame
  has a \<open>pickup_hour\<close> column it did not have, and its timestamp column holds parsed
  timestamps and \<open>NaT\<close> in place of the strings.
\<close>

theorem input_unchanged_counterexample:
  "columns sample_frame = sample_columns \<and>
   columns (fst (clean_uber_data sample_conv sample_geodesic sample_frame (-74.3) (-73.7) 40.5 40.9))
     = sample_columns @ [''pickup_hour''] \<and>
   getcol nan_fare_frame ''pickup_datetime'' = Inr [Str ''2015-05-07 19:52:06''] \<and>
   getcol (fst (clean_uber_data sample_conv sample_geodesic nan_fare_frame (-74.3) (-73.7) 40.5 40.9))
     ''pickup_datetime'' = Inr [Stamp \<lparr>year = 2015, month = 5, day = 7, hour = 19, minute = 52, second = 6\<rparr>] \<and>
   fst (clean_uber_data sample_conv sample_geodesic sample_frame (-74.3) (-73.7) 40.5 40.9) \<noteq> sample_frame"
proof -
  have 1: "columns sample_frame = sample_columns"
    by (simp add: sample_frame_def)
  have 2: "columns (fst (clean_uber_data sample_conv sample_geodesic sample_frame (-74.3) (-73.7) 40.5 40.9))
     = sample_columns @ [''pickup_hour'']"
  proof -
    have "fst (clean_uber_data sample_conv sample_geodesic sample_frame (-74.3) (-73.7) 40.5 40.9)
            = converted sample_parse sample_frame"
      by (simp add: clean_uber_data_def convert_datetime_present [OF sample_has_datetime converts_sample])
    then show ?thesis
      by (simp add: converted_def add_column_def 1 sample_columns_def)
  qed
  have 3: "getcol nan_fare_frame ''pickup_datetime'' = Inr [Str ''2015-05-07 19:52:06'']"
    by (simp add: nan_fare_frame_def sample_eval)
  have 4: "getcol (fst (clean_uber_data sample_conv sample_geodesic nan_fare_frame (-74.3) (-73.7) 40.5 40.9))
     ''pickup_datetime'' = Inr [Stamp \<lparr>year = 2015, month = 5, day = 7, hour = 19, minute = 52, second = 6\<rparr>]"
    by (simp add: nan_fare_frame_def sample_eval)
  have 5: "fst (clean_uber_data sample_conv sample_geodesic sample_frame (-74.3) (-73.7) 40.5 40.9) \<noteq> sample_frame"
  proof
    assume "fst (clean_uber_data sample_conv sample_geodesic sample_frame (-74.3) (-73.7) 40.5 40.9) = sample_frame"
    with 2 have "columns sample_frame = sample_columns @ [''pickup_hour'']" by simp
    with 1 show False by simp
  qed
  from 1 2 3 4 5 show ?thesis by (intro conjI)
qed

section \<open>The fate of a single row\<close>

lemma row_invalid_parse_row:
  "row_invalid LONG_MIN LONG_MAX LAT_MIN LAT_MAX (parse_row f r) \<longleftrightarrow>
     row_out_of_range LONG_MIN LONG_MAX LAT_MIN LAT_MAX r \<or> row_invalid_fare r \<or>
     row_nan_coordinates r \<or> row_zero_passenger r \<or> parsed f r = NaT \<or>
     row_high_passenger_count r"
proof -
  have "cell_isna (parsed f r) \<longleftrightarrow> parsed f r = NaT"
    using parsed_cases [of f r] by auto
  then show ?thesis
    by (simp add: row_invalid_def row_out_of_range_def row_invalid_fare_def row_nan_coordinates_def
        row_zero_passenger_def row_invalid_datetime_def row_high_passenger_count_def cmp_true_def
        value_at_parse_row value_at_parse_row_datetime)
qed

lemma label_parse_row [simp]: "label (parse_row f r) = label r"
  by (simp add: parse_row_def)

lemma label_with_distance [simp]: "label (with_distance geo r) = label r"
  by (simp add: with_distance_def)

lemma label_in_filter:
  assumes "distinct (map label rs)" "r \<in> set rs"
  shows "label r \<in> set (map label (filter P rs)) \<longleftrightarrow> P r"
proof
  assume "label r \<in> set (map label (filter P rs))"
  then obtain r2 where r2: "r2 \<in> set rs" "P r2" "label r2 = label r" by auto
  from assms(1) have "inj_on label (set rs)" by (simp add: distinct_map)
  with r2 assms(2) have "r2 = r" by (auto dest: inj_onD)
  with r2 show "P r" by simp
next
  assume "P r"
  with assms(2) show "label r \<in> set (map label (filter P rs))" by auto
qed

lemma row_fate:
  assumes ok: "schema_ok df" and geo: "geodesic_defined geo LONG_MIN LONG_MAX LAT_MIN LAT_MAX"
    and cv: "converts conv df f" and sv: "some_row_survives f df LONG_MIN LONG_MAX LAT_MIN LAT_MAX"
    and d: "distinct (map label (rows df))"
  obtains cleaned dropped where
    "clean_uber_data conv geo df LONG_MIN LONG_MAX LAT_MIN LAT_MAX = (converted f df, Inr (cleaned, dropped))"
    "\<forall>r \<in> set (rows df).
       (label r \<in> set (map label (rows cleaned)) \<longleftrightarrow> row_kept f geo LONG_MIN LONG_MAX LAT_MIN LAT_MAX r)"
    "\<forall>r \<in> set (rows df).
       (label r \<in> set (map label (rows dropped)) \<longleftrightarrow> \<not> row_kept f geo LONG_MIN LONG_MAX LAT_MIN LAT_MAX r)"
proof -
  let ?K = "row_kept f geo LONG_MIN LONG_MAX LAT_MIN LAT_MAX"
  let ?A = "stage_one_dropped f LONG_MIN LONG_MAX LAT_MIN LAT_MAX"
  let ?B = "stage_two_dropped f geo LONG_MIN LONG_MAX LAT_MIN LAT_MAX"
  from ok geo cv sv obtain cleaned dropped where
    r: "clean_uber_data conv geo df LONG_MIN LONG_MAX LAT_MIN LAT_MAX = (converted f df, Inr (cleaned, dropped))"
    and rc: "rows cleaned = map (\<lambda>r. with_distance geo (parse_row f r)) (filter ?K (rows df))"
    and rd: "rows dropped =
       map (\<lambda>r. reindex (columns dropped) (parse_row f r)) (filter ?A (rows df)) @
       map (\<lambda>r. reindex (columns dropped) (with_distance geo (parse_row f r))) (filter ?B (rows df))"
    by (rule clean_rows)
  have lc: "map label (rows cleaned) = map label (filter ?K (rows df))"
    by (simp add: rc o_def)
  have ld: "map label (rows dropped) = map label (filter ?A (rows df)) @ map label (filter ?B (rows df))"
    by (subst rd) (simp add: o_def)
  have 1: "label r \<in> set (map label (rows cleaned)) \<longleftrightarrow> ?K r" if "r \<in> set (rows df)" for r
    unfolding lc by (rule label_in_filter [OF d that])
  have 2: "label r \<in> set (map label (rows dropped)) \<longleftrightarrow> \<not> ?K r" if "r \<in> set (rows df)" for r
  proof -
    have "label r \<in> set (map label (rows dropped)) \<longleftrightarrow> ?A r \<or> ?B r"
      unfolding ld set_append Un_iff label_in_filter [OF d that] ..
    also have "\<dots> \<longleftrightarrow> \<not> ?K r"
      by (auto simp: row_kept_def stage_two_dropped_def)
    finally show ?thesis .
  qed
  from 1 have 1: "\<forall>r \<in> set (rows df). (label r \<in> set (map label (rows cleaned)) \<longleftrightarrow> ?K r)"
    by blast
  from 2 have 2: "\<forall>r \<in> set (rows df). (label r \<in> set (map label (rows dropped)) \<longleftrightarrow> \<not> ?K r)"
    by blast
  from r 1 2 show thesis by (rule that)
qed

lemma row_kept_iff:
  "row_kept f geo LONG_MIN LONG_MAX LAT_MIN LAT_MAX r \<longleftrightarrow>
     passes_other_than_fare f geo LONG_MIN LONG_MAX LAT_MIN LAT_MAX r \<and> \<not> row_invalid_fare r"
  "row_kept f geo LONG_MIN LONG_MAX LAT_MIN LAT_MAX r \<longleftrightarrow>
     passes_other_than_passengers f geo LONG_MIN LONG_MAX LAT_MIN LAT_MAX r \<and>
     \<not> row_zero_passenger r \<and> \<not> row_high_passenger_count r"
  by (auto simp: row_kept_def stage_one_dropped_def row_invalid_parse_row passes_other_than_fare_def
      passes_other_than_passengers_def)

text \<open>
  C5. The boundary rows that are to be dropped are not dropped where they are the whole
  dataset. On a dataset of one trip with fare 0, and on a dataset of one trip for
  eleven passengers, no row passes the first split, and the call raises \<open>ValueError\<close>
  at line 71 and returns no dropped frame.
\<close>

theorem boundary_row_alone_raises:
  "getcol zero_fare_frame ''fare_amount'' = Inr [Num (Fin 0)] \<and>
   snd (clean_uber_data sample_conv sample_geodesic zero_fare_frame (-74.3) (-73.7) 40.5 40.9)
     = Inl ValueError \<and>
   getcol crowded_frame ''passenger_count'' = Inr [Num (Fin 11)] \<and>
   snd (clean_uber_data sample_conv sample_geodesic crowded_frame (-74.3) (-73.7) 40.5 40.9)
     = Inl ValueError"
  by (simp add: zero_fare_frame_def crowded_frame_def sample_eval)

text \<open>
  Apart from that case the boundaries are as stated. On a well-formed dataset with
  distinct labels of which some row passes the first split: a row with fare 0 is in
  the dropped frame and not in the cleaned one; a row with fare 0.01 on which every
  other condition passes is in the cleaned frame and not in the dropped one; a row
  with passenger count 0 or 11 is dropped; a row with passenger count 10 on which
  every other condition passes is kept.
\<close>

lemma boundaries_when_some_row_survives:
  assumes "schema_ok df" and "geodesic_defined geo LONG_MIN LONG_MAX LAT_MIN LAT_MAX"
    and "converts conv df f" and "some_row_survives f df LONG_MIN LONG_MAX LAT_MIN LAT_MAX"
    and "distinct (map label (rows df))"
  shows "\<exists>df' cleaned dropped.
     clean_uber_data conv geo df LONG_MIN LONG_MAX LAT_MIN LAT_MAX = (df', Inr (cleaned, dropped)) \<and>
     (\<forall>r \<in> set (rows df).
        (value_at r ''fare_amount'' = Num (Fin 0) \<longrightarrow>
           label r \<in> set (map label (rows dropped)) \<and> label r \<notin> set (map label (rows cleaned))) \<and>
        (value_at r ''fare_amount'' = Num (Fin 0.01) \<and>
         passes_other_than_fare f geo LONG_MIN LONG_MAX LAT_MIN LAT_MAX r \<longrightarrow>
           label r \<in> set (map label (rows cleaned)) \<and> label r \<notin> set (map label (rows dropped))) \<and>
        (value_at r ''passenger_count'' = Num (Fin 0) \<longrightarrow>
           label r \<in> set (map label (rows dropped)) \<and> label r \<notin> set (map label (rows cleaned))) \<and>
        (value_at r ''passenger_count'' = Num (Fin 10) \<and>
         passes_other_than_passengers f geo LONG_MIN LONG_MAX LAT_MIN LAT_MAX r \<longrightarrow>
           label r \<in> set (map label (rows cleaned)) \<and> label r \<notin> set (map label (rows dropped))) \<and>
        (value_at r ''passenger_count'' = Num (Fin 11) \<longrightarrow>
           label r \<in> set (map label (rows dropped)) \<and> label r \<notin> set (map label (rows cleaned))))"
proof -
  let ?K = "row_kept f geo LONG_MIN LONG_MAX LAT_MIN LAT_MAX"
  from assms obtain cleaned dropped where
    r: "clean_uber_data conv geo df LONG_MIN LONG_MAX LAT_MIN LAT_MAX = (converted f df, Inr (cleaned, dropped))"
    and c: "\<forall>r \<in> set (rows df). (label r \<in> set (map label (rows cleaned)) \<longleftrightarrow> ?K r)"
    and d: "\<forall>r \<in> set (rows df). (label r \<in> set (map label (rows dropped)) \<longleftrightarrow> \<not> ?K r)"
    by (rule row_fate)
  have k1: "\<not> ?K r" if "value_at r ''fare_amount'' = Num (Fin 0)" for r
    using that by (simp add: row_kept_iff(1) row_invalid_fare_def cmp_true_def)
  have k2: "?K r" if "value_at r ''fare_amount'' = Num (Fin 0.01)"
    "passes_other_than_fare f geo LONG_MIN LONG_MAX LAT_MIN LAT_MAX r" for r
    using that by (simp add: row_kept_iff(1) row_invalid_fare_def cmp_true_def)
  have k3: "\<not> ?K r" if "value_at r ''passenger_count'' = Num (Fin 0)" for r
    using that by (simp add: row_kept_iff(2) row_zero_passenger_def cmp_true_def)
  have k4: "?K r" if "value_at r ''passenger_count'' = Num (Fin 10)"
    "passes_other_than_passengers f geo LONG_MIN LONG_MAX LAT_MIN LAT_MAX r" for r
    using that
    by (simp add: row_kept_iff(2) row_zero_passenger_def row_high_passenger_count_def cmp_true_def)
  have k5: "\<not> ?K r" if "value_at r ''passenger_count'' = Num (Fin 11)" for r
    using that by (simp add: row_kept_iff(2) row_high_passenger_count_def cmp_true_def)
  from c d k1 k2 k3 k4 k5 have "\<forall>r \<in> set (rows df).
        (value_at r ''fare_amount'' = Num (Fin 0) \<longrightarrow>
           label r \<in> set (map label (rows dropped)) \<and> label r \<notin> set (map label (rows cleaned))) \<and>
        (value_at r ''fare_amount'' = Num (Fin 0.01) \<and>
         passes_other_than_fare f geo LONG_MIN LONG_MAX LAT_MIN LAT_MAX r \<longrightarrow>
           label r \<in> set (map label (rows cleaned)) \<and> label r \<notin> set (map label (rows dropped))) \<and>
        (value_at r ''passenger_count'' = Num (Fin 0) \<longrightarrow>
           label r \<in> set (map label (rows dropped)) \<and> label r \<notin> set (map label (rows cleaned))) \<and>
        (value_at r ''passenger_count'' = Num (Fin 10) \<and>
         passes_other_than_passengers f geo LONG_MIN LONG_MAX LAT_MIN LAT_MAX r \<longrightarrow>
           label r \<in> set (map label (rows cleaned)) \<and> label r \<notin> set (map label (rows dropped))) \<and>
        (value_at r ''passenger_count'' = Num (Fin 11) \<longrightarrow>
           label r \<in> set (map label (rows dropped)) \<and> label r \<notin> set (map label (rows cleaned)))"
    by (intro ballI conjI impI) (auto simp del: set_map)
  with r show ?thesis by blast
qed

text \<open>
  C9. On a well-formed dataset with distinct labels: on a row whose fare is \<open>NaN\<close> the
  comparison \<open>fare_amount <= 0\<close> is false, and on a row whose passenger count is \<open>NaN\<close>
  the comparisons \<open>passenger_count <= 0\<close> and \<open>passenger_count > 10\<close> are false; neither
  raises. When every other condition passes on such a row, the call returns, and the
  row is in the cleaned frame and not in the dropped one.
\<close>

theorem missing_fare_or_count_kept:
  assumes ok: "schema_ok df" and geo: "geodesic_defined geo LONG_MIN LONG_MAX LAT_MIN LAT_MAX"
    and cv: "converts conv df f" and d: "distinct (map label (rows df))"
    and r: "r \<in> set (rows df)"
  shows
    "(value_at r ''fare_amount'' = Num NaN \<longrightarrow>
        cell_cmp fl_le (value_at r ''fare_amount'') 0 = Inr False) \<and>
     (value_at r ''passenger_count'' = Num NaN \<longrightarrow>
        cell_cmp fl_le (value_at r ''passenger_count'') 0 = Inr False \<and>
        cell_cmp fl_gt (value_at r ''passenger_count'') 10 = Inr False) \<and>
     (value_at r ''fare_amount'' = Num NaN \<and>
      passes_other_than_fare f geo LONG_MIN LONG_MAX LAT_MIN LAT_MAX r \<longrightarrow>
        (\<exists>df' cleaned dropped.
           clean_uber_data conv geo df LONG_MIN LONG_MAX LAT_MIN LAT_MAX = (df', Inr (cleaned, dropped)) \<and>
           label r \<in> set (map label (rows cleaned)) \<and> label r \<notin> set (map label (rows dropped)))) \<and>
     (value_at r ''passenger_count'' = Num NaN \<and>
      passes_other_than_passengers f geo LONG_MIN LONG_MAX LAT_MIN LAT_MAX r \<longrightarrow>
        (\<exists>df' cleaned dropped.
           clean_uber_data conv geo df LONG_MIN LONG_MAX LAT_MIN LAT_MAX = (df', Inr (cleaned, dropped)) \<and>
           label r \<in> set (map label (rows cleaned)) \<and> label r \<notin> set (map label (rows dropped))))"
proof -
  let ?K = "row_kept f geo LONG_MIN LONG_MAX LAT_MIN LAT_MAX"
  have kept: "\<exists>df' cleaned dropped.
           clean_uber_data conv geo df LONG_MIN LONG_MAX LAT_MIN LAT_MAX = (df', Inr (cleaned, dropped)) \<and>
           label r \<in> set (map label (rows cleaned)) \<and> label r \<notin> set (map label (rows dropped))"
    if k: "?K r"
  proof -
    from k r have sv: "some_row_survives f df LONG_MIN LONG_MAX LAT_MIN LAT_MAX"
      unfolding some_row_survives_def row_kept_def by blast
    from ok geo cv sv d obtain cleaned dropped where
      res: "clean_uber_data conv geo df LONG_MIN LONG_MAX LAT_MIN LAT_MAX = (converted f df, Inr (cleaned, dropped))"
      and c: "\<forall>r \<in> set (rows df). (label r \<in> set (map label (rows cleaned)) \<longleftrightarrow> ?K r)"
      and dr: "\<forall>r \<in> set (rows df). (label r \<in> set (map label (rows dropped)) \<longleftrightarrow> \<not> ?K r)"
      by (rule row_fate)
    from bspec [OF c r] bspec [OF dr r] k
    have "label r \<in> set (map label (rows cleaned))" "label r \<notin> set (map label (rows dropped))"
      by (simp_all del: set_map)
    with res show ?thesis by blast
  qed
  have k1: "?K r" if "value_at r ''fare_amount'' = Num NaN"
    "passes_other_than_fare f geo LONG_MIN LONG_MAX LAT_MIN LAT_MAX r"
    using that by (simp add: row_kept_iff(1) row_invalid_fare_def cmp_true_def)
  have k2: "?K r" if "value_at r ''passenger_count'' = Num NaN"
    "passes_other_than_passengers f geo LONG_MIN LONG_MAX LAT_MIN LAT_MAX r"
    using that
    by (simp add: row_kept_iff(2) row_zero_passenger_def row_high_passenger_count_def cmp_true_def)
  show ?thesis
  proof (intro conjI impI)
    assume "value_at r ''fare_amount'' = Num NaN"
    then show "cell_cmp fl_le (value_at r ''fare_amount'') 0 = Inr False" by simp
  next
    assume "value_at r ''passenger_count'' = Num NaN"
    then show "cell_cmp fl_le (value_at r ''passenger_count'') 0 = Inr False"
      and "cell_cmp fl_gt (value_at r ''passenger_count'') 10 = Inr False"
      by simp_all
  next
    assume "value_at r ''fare_amount'' = Num NaN \<and>
      passes_other_than_fare f geo LONG_MIN LONG_MAX LAT_MIN LAT_MAX r"
    then have "?K r" using k1 by blast
    then show "\<exists>df' cleaned dropped.
           clean_uber_data conv geo df LONG_MIN LONG_MAX LAT_MIN LAT_MAX = (df', Inr (cleaned, dropped)) \<and>
           label r \<in> set (map label (rows cleaned)) \<and> label r \<notin> set (map label (rows dropped))"
      by (rule kept)
  next
    assume "value_at r ''passenger_count'' = Num NaN \<and>
      passes_other_than_passengers f geo LONG_MIN LONG_MAX LAT_MIN LAT_MAX r"
    then have "?K r" using k2 by blast
    then show "\<exists>df' cleaned dropped.
           clean_uber_data conv geo df LONG_MIN LONG_MAX LAT_MIN LAT_MAX = (df', Inr (cleaned, dropped)) \<and>
           label r \<in> set (map label (rows cleaned)) \<and> label r \<notin> set (map label (rows dropped))"
      by (rule kept)
  qed
qed

theorem missing_fare_or_count_kept_witness:
  "schema_ok sample_frame \<and> geodesic_defined sample_geodesic (-74.3) (-73.7) 40.5 40.9 \<and>
   converts sample_conv sample_frame sample_parse \<and>
   distinct (map label (rows sample_frame)) \<and>
   rows sample_frame ! 3 \<in> set (rows sample_frame) \<and>
   rows sample_frame ! 8 \<in> set (rows sample_frame) \<and>
   value_at (rows sample_frame ! 3) ''fare_amount'' = Num NaN \<and>
   passes_other_than_fare sample_parse sample_geodesic (-74.3) (-73.7) 40.5 40.9 (rows sample_frame ! 3) \<and>
   value_at (rows sample_frame ! 8) ''passenger_count'' = Num NaN \<and>
   passes_other_than_passengers sample_parse sample_geodesic (-74.3) (-73.7) 40.5 40.9
     (rows sample_frame ! 8) \<and>
   cell_cmp fl_le (value_at (rows sample_frame ! 3) ''fare_amount'') 0 = Inr False \<and>
   cell_cmp fl_le (value_at (rows sample_frame ! 8) ''passenger_count'') 0 = Inr False \<and>
   cell_cmp fl_gt (value_at (rows sample_frame ! 8) ''passenger_count'') 10 = Inr False \<and>
   (\<exists>df' cleaned dropped.
      clean_uber_data sample_conv sample_geodesic sample_frame (-74.3) (-73.7) 40.5 40.9
        = (df', Inr (cleaned, dropped)) \<and>
      label (rows sample_frame ! 3) = 3 \<and>
      3 \<in> set (map label (rows cleaned)) \<and> 3 \<notin> set (map label (rows dropped))) \<and>
   (\<exists>df' cleaned dropped.
      clean_uber_data sample_conv sample_geodesic sample_frame (-74.3) (-73.7) 40.5 40.9
        = (df', Inr (cleaned, dropped)) \<and>
      label (rows sample_frame ! 8) = 8 \<and>
      8 \<in> set (map label (rows cleaned)) \<and> 8 \<notin> set (map label (rows dropped)))"
proof -
  let ?r = "\<lambda>i. rows sample_frame ! i"
  have m: "?r 3 \<in> set (rows sample_frame)" "?r 8 \<in> set (rows sample_frame)"
    by (simp_all add: sample_frame_def)
  have l: "label (?r 3) = 3" "label (?r 8) = 8"
    by (simp_all add: sample_frame_def trip_def)
  have h1: "value_at (?r 3) ''fare_amount'' = Num NaN"
    by (simp add: sample_row_eval)
  have h2: "passes_other_than_fare sample_parse sample_geodesic (-74.3) (-73.7) 40.5 40.9 (?r 3)"
    by (simp add: sample_row_eval)
  have h3: "value_at (?r 8) ''passenger_count'' = Num NaN"
    by (simp add: sample_row_eval)
  have h4: "passes_other_than_passengers sample_parse sample_geodesic (-74.3) (-73.7) 40.5 40.9 (?r 8)"
    by (simp add: sample_row_eval)
  note t3 = missing_fare_or_count_kept [OF schema_ok_sample geodesic_defined_sample converts_sample
      distinct_sample m(1), where LONG_MIN = "-74.3" and LONG_MAX = "-73.7" and LAT_MIN = "40.5"
      and LAT_MAX = "40.9"]
  note t8 = missing_fare_or_count_kept [OF schema_ok_sample geodesic_defined_sample converts_sample
      distinct_sample m(2), where LONG_MIN = "-74.3" and LONG_MAX = "-73.7" and LAT_MIN = "40.5"
      and LAT_MAX = "40.9"]
  from t3 h1 have c3: "cell_cmp fl_le (value_at (?r 3) ''fare_amount'') 0 = Inr False"
    by blast
  from t8 h3 have c8: "cell_cmp fl_le (value_at (?r 8) ''passenger_count'') 0 = Inr False"
    "cell_cmp fl_gt (value_at (?r 8) ''passenger_count'') 10 = Inr False"
    by blast+
  from t3 h1 h2 have k3: "\<exists>df' cleaned dropped.
      clean_uber_data sample_conv sample_geodesic sample_frame (-74.3) (-73.7) 40.5 40.9
        = (df', Inr (cleaned, dropped)) \<and>
      label (?r 3) = 3 \<and>
      3 \<in> set (map label (rows cleaned)) \<and> 3 \<notin> set (map label (rows dropped))"
    unfolding l by blast
  from t8 h3 h4 have k8: "\<exists>df' cleaned dropped.
      clean_uber_data sample_conv sample_geodesic sample_frame (-74.3) (-73.7) 40.5 40.9
        = (df', Inr (cleaned, dropped)) \<and>
      label (?r 8) = 8 \<and>
      8 \<in> set (map label (rows cleaned)) \<and> 8 \<notin> set (map label (rows dropped))"
    unfolding l by blast
  show ?thesis
    by (intro conjI schema_ok_sample geodesic_defined_sample converts_sample distinct_sample m
        h1 h2 h3 h4 c3 c8 k3 k8)
qed

section \<open>Order of the outputs\<close>

lemma subseq_map_filter: "subseq (map f (filter P xs)) (map f xs)"
  by (intro subseq_map subseq_filter_left)

text \<open>
  C7. On a well-formed dataset of which some row passes the first split the call
  returns; the rows of the cleaned frame are the kept input rows in their input order, and the rows of the dropped frame are first all the input rows
  that fail one of the six conditions of the first split, in their input order, then
  all the input rows that pass those and fail the distance condition, in their input
  order. Each of the three runs is a subsequence of the input.
\<close>

theorem outputs_keep_input_order:
  assumes "schema_ok df" and "geodesic_defined geo LONG_MIN LONG_MAX LAT_MIN LAT_MAX"
    and "converts conv df f" and "some_row_survives f df LONG_MIN LONG_MAX LAT_MIN LAT_MAX"
  shows "\<exists>df' cleaned dropped.
     clean_uber_data conv geo df LONG_MIN LONG_MAX LAT_MIN LAT_MAX = (df', Inr (cleaned, dropped)) \<and>
     map (passthrough df) (rows cleaned) =
       map (passthrough df) (filter (row_kept f geo LONG_MIN LONG_MAX LAT_MIN LAT_MAX) (rows df)) \<and>
     map (passthrough df) (rows dropped) =
       map (passthrough df) (filter (stage_one_dropped f LONG_MIN LONG_MAX LAT_MIN LAT_MAX) (rows df)) @
       map (passthrough df) (filter (stage_two_dropped f geo LONG_MIN LONG_MAX LAT_MIN LAT_MAX) (rows df)) \<and>
     subseq (map (passthrough df) (rows cleaned)) (map (passthrough df) (rows df)) \<and>
     subseq (map (passthrough df) (filter (stage_one_dropped f LONG_MIN LONG_MAX LAT_MIN LAT_MAX) (rows df)))
       (map (passthrough df) (rows df)) \<and>
     subseq (map (passthrough df) (filter (stage_two_dropped f geo LONG_MIN LONG_MAX LAT_MIN LAT_MAX) (rows df)))
       (map (passthrough df) (rows df))"
proof -
  from assms obtain cleaned dropped where
    r: "clean_uber_data conv geo df LONG_MIN LONG_MAX LAT_MIN LAT_MAX = (converted f df, Inr (cleaned, dropped))"
    and c: "map (passthrough df) (rows cleaned) =
       map (passthrough df) (filter (row_kept f geo LONG_MIN LONG_MAX LAT_MIN LAT_MAX) (rows df))"
    and d: "map (passthrough df) (rows dropped) =
       map (passthrough df) (filter (stage_one_dropped f LONG_MIN LONG_MAX LAT_MIN LAT_MAX) (rows df)) @
       map (passthrough df) (filter (stage_two_dropped f geo LONG_MIN LONG_MAX LAT_MIN LAT_MAX) (rows df))"
    by (rule outputs_passthrough)
  have s: "subseq (map (passthrough df) (rows cleaned)) (map (passthrough df) (rows df))"
    unfolding c by (rule subseq_map_filter)
  show ?thesis
    by (intro exI [of _ "converted f df"] exI [of _ cleaned] exI [of _ dropped] conjI r c d s
        subseq_map_filter)
qed

theorem outputs_keep_input_order_witness:
  "schema_ok sample_frame \<and> geodesic_defined sample_geodesic (-74.3) (-73.7) 40.5 40.9 \<and>
   converts sample_conv sample_frame sample_parse \<and>
   some_row_survives sample_parse sample_frame (-74.3) (-73.7) 40.5 40.9 \<and>
   map label (rows sample_frame) = [0, 1, 2, 3, 4, 5, 6, 7, 8, 9] \<and>
   (\<exists>df' cleaned dropped.
     clean_uber_data sample_conv sample_geodesic sample_frame (-74.3) (-73.7) 40.5 40.9
       = (df', Inr (cleaned, dropped)) \<and>
     map label (rows cleaned) = [0, 3, 6, 8] \<and>
     map label (rows dropped) = [1, 2, 5, 7, 9, 4] \<and>
     map (passthrough sample_frame) (rows cleaned) =
       map (passthrough sample_frame)
         (filter (row_kept sample_parse sample_geodesic (-74.3) (-73.7) 40.5 40.9) (rows sample_frame)) \<and>
     map (passthrough sample_frame) (rows dropped) =
       map (passthrough sample_frame)
         (filter (stage_one_dropped sample_parse (-74.3) (-73.7) 40.5 40.9) (rows sample_frame)) @
       map (passthrough sample_frame)
         (filter (stage_two_dropped sample_parse sample_geodesic (-74.3) (-73.7) 40.5 40.9) (rows sample_frame)) \<and>
     subseq (map (passthrough sample_frame) (rows cleaned)) (map (passthrough sample_frame) (rows sample_frame)))"
proof -
  from outputs_keep_input_order [OF schema_ok_sample geodesic_defined_sample converts_sample
      some_row_survives_sample]
  obtain df' cleaned dropped where
    r: "clean_uber_data sample_conv sample_geodesic sample_frame (-74.3) (-73.7) 40.5 40.9
       = (df', Inr (cleaned, dropped))"
    and c: "map (passthrough sample_frame) (rows cleaned) =
       map (passthrough sample_frame)
         (filter (row_kept sample_parse sample_geodesic (-74.3) (-73.7) 40.5 40.9) (rows sample_frame))"
    and d: "map (passthrough sample_frame) (rows dropped) =
       map (passthrough sample_frame)
         (filter (stage_one_dropped sample_parse (-74.3) (-73.7) 40.5 40.9) (rows sample_frame)) @
       map (passthrough sample_frame)
         (filter (stage_two_dropped sample_parse sample_geodesic (-74.3) (-73.7) 40.5 40.9) (rows sample_frame))"
    and s: "subseq (map (passthrough sample_frame) (rows cleaned)) (map (passthrough sample_frame) (rows sample_frame))"
    by blast
  have i: "map label (rows sample_frame) = [0, 1, 2, 3, 4, 5, 6, 7, 8, 9]"
    by (simp add: sample_frame_def trip_def)
  from sample_cleaned_labels have lc: "map label (rows cleaned) = [0, 3, 6, 8]"
    unfolding cleaned_labels_def r by simp
  from sample_dropped_labels have ld: "map label (rows dropped) = [1, 2, 5, 7, 9, 4]"
    unfolding dropped_labels_def r by simp
  show ?thesis
    by (intro conjI schema_ok_sample geodesic_defined_sample converts_sample some_row_survives_sample
        i exI [of _ df'] exI [of _ cleaned] exI [of _ dropped] r lc ld c d s)
qed

section \<open>The arguments of the geodesic routine\<close>

lemma apply_geodesic_cong:
  assumes "rows df \<noteq> []"
    and "\<forall>r \<in> set (rows df). geo (fst (geodesic_args r)) (snd (geodesic_args r))
                                 = geo' (fst (geodesic_args r)) (snd (geodesic_args r))"
  shows "apply_geodesic geo df = apply_geodesic geo' df"
proof -
  have same: "map (\<lambda>(p, q). geo p q) (apply_args df) = map (\<lambda>(p, q). geo' p q) (apply_args df)"
    using assms by (simp add: apply_args_def case_prod_unfold)
  show ?thesis
    unfolding apply_geodesic_def same ..
qed

lemma split_and_measure_cong:
  assumes "\<exists>r \<in> set (rows df). \<not> p r"
    and "\<forall>r \<in> set (rows df). \<not> p r \<longrightarrow>
           geo (fst (geodesic_args r)) (snd (geodesic_args r))
             = geo' (fst (geodesic_args r)) (snd (geodesic_args r))"
  shows "split_and_measure geo df (map p (rows df)) = split_and_measure geo' df (map p (rows df))"
proof -
  define S where "S = df\<lparr>rows := filter (\<lambda>r. \<not> p r) (rows df)\<rparr>"
  have m1: "mask_rows df (map Not (map p (rows df))) = S"
    using mask_rows_map [of df "\<lambda>r. \<not> p r"] by (simp add: S_def o_def)
  have ne: "rows S \<noteq> []"
    using assms(1) by (auto simp: S_def filter_empty_conv)
  have "apply_geodesic geo S = apply_geodesic geo' S"
    by (rule apply_geodesic_cong [OF ne]) (use assms(2) in \<open>simp add: S_def\<close>)
  then show ?thesis
    unfolding split_and_measure_def Let_def m1 by simp
qed

text \<open>
  When some row passes the first split, the geodesic routine is called on the rows
  that passed and on nothing else: the result of the call is the same for two routines
  that agree on finite coordinates inside the bounding box, whatever they do elsewhere.
\<close>

lemma geodesic_consulted_inside_box_only:
  assumes ok: "schema_ok df" and cv: "converts conv df f"
    and sv: "some_row_survives f df LONG_MIN LONG_MAX LAT_MIN LAT_MAX"
    and agree: "\<forall>lat1 lon1 lat2 lon2.
        LAT_MIN \<le> lat1 \<and> lat1 \<le> LAT_MAX \<and> LONG_MIN \<le> lon1 \<and> lon1 \<le> LONG_MAX \<and>
        LAT_MIN \<le> lat2 \<and> lat2 \<le> LAT_MAX \<and> LONG_MIN \<le> lon2 \<and> lon2 \<le> LONG_MAX \<longrightarrow>
        geo (Num (Fin lat1), Num (Fin lon1)) (Num (Fin lat2), Num (Fin lon2))
          = geo' (Num (Fin lat1), Num (Fin lon1)) (Num (Fin lat2), Num (Fin lon2))"
  shows "clean_uber_data conv geo df LONG_MIN LONG_MAX LAT_MIN LAT_MAX
           = clean_uber_data conv geo' df LONG_MIN LONG_MAX LAT_MIN LAT_MAX"
proof -
  let ?D = "converted f df"
  let ?I = "row_invalid LONG_MIN LONG_MAX LAT_MIN LAT_MAX"
  have dt: "''pickup_datetime'' \<in> set (columns df)"
    using ok by (simp add: schema_ok_def)
  note sc = schema_ok_converted [OF ok, of f]
  have icc: "initial_condition_combined ?D LONG_MIN LONG_MAX LAT_MIN LAT_MAX = Inr (map ?I (rows ?D))"
    by (rule initial_condition_combined_rows [OF sc])
  have same: "geo (fst (geodesic_args r)) (snd (geodesic_args r))
                = geo' (fst (geodesic_args r)) (snd (geodesic_args r))"
    if "r \<in> set (rows ?D)" "\<not> ?I r" for r
  proof -
    have "is_num (value_at r c)" if "c \<in> set numeric_columns" for c
      using sc(2) that \<open>r \<in> set (rows ?D)\<close> by (auto simp: numeric_column_def)
    then have "is_num (value_at r ''pickup_latitude'')" "is_num (value_at r ''pickup_longitude'')"
      "is_num (value_at r ''dropoff_latitude'')" "is_num (value_at r ''dropoff_longitude'')"
      by (simp_all add: numeric_columns_def)
    from valid_row_coordinates [OF this \<open>\<not> ?I r\<close>] obtain lat1 lon1 lat2 lon2 where
      v: "value_at r ''pickup_latitude'' = Num (Fin lat1)" "value_at r ''pickup_longitude'' = Num (Fin lon1)"
         "value_at r ''dropoff_latitude'' = Num (Fin lat2)" "value_at r ''dropoff_longitude'' = Num (Fin lon2)"
      and b: "LAT_MIN \<le> lat1" "lat1 \<le> LAT_MAX" "LONG_MIN \<le> lon1" "lon1 \<le> LONG_MAX"
         "LAT_MIN \<le> lat2" "lat2 \<le> LAT_MAX" "LONG_MIN \<le> lon2" "lon2 \<le> LONG_MAX"
      unfolding in_range_iff by blast
    from agree b show ?thesis
      by (simp add: geodesic_args_def v)
  qed
  have "\<exists>r \<in> set (rows ?D). \<not> ?I r"
    using sv by (simp add: some_row_survives_def stage_one_dropped_def converted_def)
  then have "split_and_measure geo ?D (map ?I (rows ?D)) = split_and_measure geo' ?D (map ?I (rows ?D))"
    by (rule split_and_measure_cong) (use same in blast)
  then show ?thesis
    by (simp add: clean_uber_data_def convert_datetime_present [OF dt cv] icc)
qed

text \<open>
  C10. With no row left after the first split the geodesic routine is called all the
  same, once, on four missing coordinates: on a frame with no rows the arguments of
  line 71 are the one probe on \<open>NaN\<close>, and on the dataset of one trip with fare 0 the
  outcome of the call depends on what the routine does there. Of two routines that
  agree on all finite coordinates, the one that raises on \<open>NaN\<close> makes the call raise
  \<open>ValueError\<close>, and the one that returns on \<open>NaN\<close> lets it return with the trip in the
  dropped frame.
\<close>

theorem geodesic_probed_on_missing_coordinates:
  "(\<forall>lat1 lon1 lat2 lon2.
      lenient_geodesic (Num (Fin lat1), Num (Fin lon1)) (Num (Fin lat2), Num (Fin lon2))
        = sample_geodesic (Num (Fin lat1), Num (Fin lon1)) (Num (Fin lat2), Num (Fin lon2))) \<and>
   apply_args \<lparr>columns = sample_columns, rows = []\<rparr> = [((Num NaN, Num NaN), (Num NaN, Num NaN))] \<and>
   snd (clean_uber_data sample_conv sample_geodesic zero_fare_frame (-74.3) (-73.7) 40.5 40.9)
     = Inl ValueError \<and>
   cleaned_labels (clean_uber_data sample_conv lenient_geodesic zero_fare_frame (-74.3) (-73.7) 40.5 40.9)
     = [] \<and>
   dropped_labels (clean_uber_data sample_conv lenient_geodesic zero_fare_frame (-74.3) (-73.7) 40.5 40.9)
     = [0]"
proof -
  have 1: "\<forall>lat1 lon1 lat2 lon2.
      lenient_geodesic (Num (Fin lat1), Num (Fin lon1)) (Num (Fin lat2), Num (Fin lon2))
        = sample_geodesic (Num (Fin lat1), Num (Fin lon1)) (Num (Fin lat2), Num (Fin lon2))"
    by (simp add: lenient_geodesic_def sample_geodesic_def)
  have 2: "apply_args \<lparr>columns = sample_columns, rows = []\<rparr> = [((Num NaN, Num NaN), (Num NaN, Num NaN))]"
    by (simp add: apply_args_def probe_args_def)
  have 3: "snd (clean_uber_data sample_conv sample_geodesic zero_fare_frame (-74.3) (-73.7) 40.5 40.9)
     = Inl ValueError"
    by (simp add: zero_fare_frame_def sample_eval)
  have 4: "cleaned_labels (clean_uber_data sample_conv lenient_geodesic zero_fare_frame (-74.3) (-73.7) 40.5 40.9)
     = []"
    by (simp add: cleaned_labels_def zero_fare_frame_def lenient_geodesic_def sample_eval)
  have 5: "dropped_labels (clean_uber_data sample_conv lenient_geodesic zero_fare_frame (-74.3) (-73.7) 40.5 40.9)
     = [0]"
    by (simp add: dropped_labels_def zero_fare_frame_def lenient_geodesic_def sample_eval)
  from 1 2 3 4 5 show ?thesis by (intro conjI)
qed

section \<open>A second call on the cleaned frame\<close>

text \<open>
  C4. Idempotence fails where the cleaned frame has no rows. On the dataset of one trip
  set down where it was picked up, the first call returns: the trip is in the dropped
  frame and the cleaned frame has its nine columns and no rows. The second call, on
  that cleaned frame with the same bounds, raises \<open>ValueError\<close> at line 71 and returns
  nothing.
\<close>

theorem second_call_on_empty_cleaned_raises:
  "cleaned_labels (clean_uber_data sample_conv sample_geodesic zero_distance_frame (-74.3) (-73.7) 40.5 40.9)
     = [] \<and>
   dropped_labels (clean_uber_data sample_conv sample_geodesic zero_distance_frame (-74.3) (-73.7) 40.5 40.9)
     = [4] \<and>
   columns (cleaned_frame
      (clean_uber_data sample_conv sample_geodesic zero_distance_frame (-74.3) (-73.7) 40.5 40.9))
     = sample_columns @ [''pickup_hour'', ''distance_miles''] \<and>
   snd (clean_uber_data sample_conv sample_geodesic
         (cleaned_frame
            (clean_uber_data sample_conv sample_geodesic zero_distance_frame (-74.3) (-73.7) 40.5 40.9))
         (-74.3) (-73.7) 40.5 40.9)
     = Inl ValueError"
proof -
  let ?first = "clean_uber_data sample_conv sample_geodesic zero_distance_frame (-74.3) (-73.7) 40.5 40.9"
  have c: "cleaned_frame ?first = \<lparr>columns = sample_columns @ [''pickup_hour'', ''distance_miles''], rows = []\<rparr>"
    by (simp add: cleaned_frame_def zero_distance_frame_def sample_eval)
  have 1: "cleaned_labels ?first = []"
    by (simp add: cleaned_labels_def zero_distance_frame_def sample_eval)
  have 2: "dropped_labels ?first = [4]"
    by (simp add: dropped_labels_def zero_distance_frame_def sample_eval)
  have 3: "columns (cleaned_frame ?first) = sample_columns @ [''pickup_hour'', ''distance_miles'']"
    unfolding c by simp
  have 4: "snd (clean_uber_data sample_conv sample_geodesic (cleaned_frame ?first) (-74.3) (-73.7) 40.5 40.9)
             = Inl ValueError"
    unfolding c by (simp add: sample_eval)
  from 1 2 3 4 show ?thesis by (intro conjI)
qed

text \<open>
  Apart from that case the second call changes nothing. On a well-formed dataset of
  which some row is kept, with a timestamp conversion that never raises and leaves an
  already parsed timestamp as it is, the second call leaves the cleaned frame as it is,
  returns it as the cleaned frame and returns a dropped frame with no rows.
\<close>

lemma geodesic_args_with_distance [simp]: "geodesic_args (with_distance geo' r) = geodesic_args r"
  by (simp add: geodesic_args_def with_distance_def value_at_def)

lemma miles_with_distance [simp]: "miles geo (with_distance geo' r) = miles geo r"
  by (simp add: miles_def)

lemma kept_row_fixed:
  fixes geo :: geodesic
  assumes g: "\<forall>t. g (Stamp t) = Some t"
    and p: "parsed f r = Stamp t"
  defines "r' \<equiv> with_distance geo (parse_row f r)"
  shows "parse_row g r' = r'" and "with_distance geo r' = r'"
proof -
  have v: "value_at r' ''pickup_datetime'' = Stamp t"
    by (simp add: r'_def with_distance_def parse_row_def value_at_def p)
  have p': "parsed g r' = Stamp t"
    using g by (simp add: parsed_def coerce_def v)
  have "(cells r')(''pickup_datetime'' \<mapsto> Stamp t, ''pickup_hour'' \<mapsto> dt_hour (Stamp t)) = cells r'"
    by (auto simp: r'_def with_distance_def parse_row_def p fun_eq_iff)
  then show "parse_row g r' = r'"
    by (simp add: parse_row_def p')
  have "(cells r')(''distance_miles'' \<mapsto> Num (miles geo r')) = cells r'"
    by (auto simp: r'_def fun_eq_iff) (simp add: with_distance_def)
  then show "with_distance geo r' = r'"
    by (simp add: with_distance_def [of geo r'])
qed

lemma row_invalid_with_distance [simp]:
  "row_invalid LONG_MIN LONG_MAX LAT_MIN LAT_MAX (with_distance geo r) =
     row_invalid LONG_MIN LONG_MAX LAT_MIN LAT_MAX r"
  by (simp add: row_invalid_def row_out_of_range_def row_invalid_fare_def row_nan_coordinates_def
      row_zero_passenger_def row_invalid_datetime_def row_high_passenger_count_def cmp_true_def
      value_at_with_distance)

lemma filter_all: "(\<And>x. x \<in> set xs \<Longrightarrow> P x) \<Longrightarrow> filter P xs = xs"
  by (induction xs) simp_all

lemma filter_none: "(\<And>x. x \<in> set xs \<Longrightarrow> \<not> P x) \<Longrightarrow> filter P xs = []"
  by (induction xs) simp_all

lemma add_column_present: "c \<in> set cs \<Longrightarrow> add_column c cs = cs"
  by (simp add: add_column_def)

lemma add_column_member: "c \<in> set (add_column c cs)"
  by (simp add: add_column_def)

lemma add_column_keeps: "c \<in> set cs \<Longrightarrow> c \<in> set (add_column c' cs)"
  by (simp add: add_column_def)

lemma idempotent_when_some_row_is_kept:
  assumes ok: "schema_ok df" and geo: "geodesic_defined geo LONG_MIN LONG_MAX LAT_MIN LAT_MAX"
    and cv: "converts conv df f"
    and total: "\<forall>xs. \<exists>g. conv xs = Inr g \<and> (\<forall>t. g (Stamp t) = Some t)"
    and some: "\<exists>r \<in> set (rows df). row_kept f geo LONG_MIN LONG_MAX LAT_MIN LAT_MAX r"
  shows "\<exists>df' cleaned dropped.
           clean_uber_data conv geo df LONG_MIN LONG_MAX LAT_MIN LAT_MAX = (df', Inr (cleaned, dropped)) \<and>
           rows cleaned \<noteq> [] \<and>
           clean_uber_data conv geo cleaned LONG_MIN LONG_MAX LAT_MIN LAT_MAX
             = (cleaned, Inr (cleaned, \<lparr>columns = columns cleaned, rows = []\<rparr>))"
proof -
  let ?K = "row_kept f geo LONG_MIN LONG_MAX LAT_MIN LAT_MAX"
  from some have sv: "some_row_survives f df LONG_MIN LONG_MAX LAT_MIN LAT_MAX"
    unfolding some_row_survives_def row_kept_def by blast
  from ok geo cv sv obtain cleaned dropped where
    r: "clean_uber_data conv geo df LONG_MIN LONG_MAX LAT_MIN LAT_MAX = (converted f df, Inr (cleaned, dropped))"
    and cc: "columns cleaned = add_column ''distance_miles'' (columns (converted f df))"
    and rc: "rows cleaned = map (\<lambda>r. with_distance geo (parse_row f r)) (filter ?K (rows df))"
    by (rule clean_rows)
  from total obtain g where g: "conv (datetime_column cleaned) = Inr g" "\<forall>t. g (Stamp t) = Some t"
    by blast
  then have cv2: "converts conv cleaned g"
    by (simp add: converts_def)
  have ne: "rows cleaned \<noteq> []"
    using some by (auto simp: rc filter_empty_conv)
  have cols: "set (columns df) \<subseteq> set (columns cleaned)"
    unfolding cc by (rule columns_subset_output)
  have hour: "''pickup_hour'' \<in> set (columns cleaned)"
    unfolding cc by (simp add: converted_def add_column_keeps add_column_member)
  have dist: "''distance_miles'' \<in> set (columns cleaned)"
    unfolding cc by (rule add_column_member)
  have origin: "\<exists>r0 t. r0 \<in> set (rows df) \<and> ?K r0 \<and> parsed f r0 = Stamp t \<and>
                  r' = with_distance geo (parse_row f r0)"
    if "r' \<in> set (rows cleaned)" for r'
  proof -
    from that obtain r0 where r0: "r0 \<in> set (rows df)" "?K r0"
      and r': "r' = with_distance geo (parse_row f r0)"
      unfolding rc by auto
    from kept_row_valid(1) [OF ok geo r0] obtain t where "parsed f r0 = Stamp t"
      by (auto simp: value_at_with_distance value_at_parse_row_datetime)
    with r0 r' show ?thesis by blast
  qed
  have fixed: "parse_row g r' = r'" "with_distance geo r' = r'"
       "\<not> row_invalid LONG_MIN LONG_MAX LAT_MIN LAT_MAX r'" "\<not> row_invalid_distance r'"
    if "r' \<in> set (rows cleaned)" for r'
  proof -
    from origin [OF that] obtain r0 t where r0: "?K r0" "parsed f r0 = Stamp t"
      and r': "r' = with_distance geo (parse_row f r0)"
      by blast
    show "parse_row g r' = r'" "with_distance geo r' = r'"
      unfolding r' by (rule kept_row_fixed [OF g(2) r0(2)])+
    from r0(1) show "\<not> row_invalid LONG_MIN LONG_MAX LAT_MIN LAT_MAX r'" "\<not> row_invalid_distance r'"
      by (simp_all add: r' row_kept_def stage_one_dropped_def)
  qed
  have ok2: "schema_ok cleaned"
  proof -
    have "is_num (value_at r' c)" if "r' \<in> set (rows cleaned)" "c \<in> set numeric_columns" for r' c
    proof -
      from origin [OF that(1)] obtain r0 where r0: "r0 \<in> set (rows df)"
        and r': "r' = with_distance geo (parse_row f r0)"
        by blast
      have "value_at r' c = value_at r0 c"
        using that(2) by (auto simp: r' numeric_columns_def value_at_with_distance value_at_parse_row)
      with schema_ok_is_num [OF ok r0 that(2)] show ?thesis by simp
    qed
    with ok cols show ?thesis
      by (auto simp: schema_ok_def numeric_column_def)
  qed
  have sv2: "some_row_survives g cleaned LONG_MIN LONG_MAX LAT_MIN LAT_MAX"
  proof -
    from ne obtain r' where m: "r' \<in> set (rows cleaned)"
      by (cases "rows cleaned") auto
    from fixed(1,3) [OF m] have "\<not> row_invalid LONG_MIN LONG_MAX LAT_MIN LAT_MAX (parse_row g r')"
      by simp
    with m show ?thesis
      unfolding some_row_survives_def stage_one_dropped_def by blast
  qed
  from ok2 geo cv2 sv2 obtain cleaned2 dropped2 where
    r2: "clean_uber_data conv geo cleaned LONG_MIN LONG_MAX LAT_MIN LAT_MAX
           = (converted g cleaned, Inr (cleaned2, dropped2))"
    and cc2: "columns cleaned2 = add_column ''distance_miles'' (columns (converted g cleaned))"
    and cd2: "columns dropped2 = add_column ''distance_miles'' (columns (converted g cleaned))"
    and rc2: "rows cleaned2 = map (\<lambda>r. with_distance geo (parse_row g r))
        (filter (row_kept g geo LONG_MIN LONG_MAX LAT_MIN LAT_MAX) (rows cleaned))"
    and rd2: "rows dropped2 =
       map (\<lambda>r. reindex (columns dropped2) (parse_row g r))
         (filter (stage_one_dropped g LONG_MIN LONG_MAX LAT_MIN LAT_MAX) (rows cleaned)) @
       map (\<lambda>r. reindex (columns dropped2) (with_distance geo (parse_row g r)))
         (filter (stage_two_dropped g geo LONG_MIN LONG_MAX LAT_MIN LAT_MAX) (rows cleaned))"
    by (rule clean_rows)
  have same: "converted g cleaned = cleaned"
    by (simp add: converted_def add_column_present [OF hour] fixed(1) map_idI)
  have kept: "filter (row_kept g geo LONG_MIN LONG_MAX LAT_MIN LAT_MAX) (rows cleaned) = rows cleaned"
    by (rule filter_all) (simp add: row_kept_def stage_one_dropped_def fixed)
  have none1: "filter (stage_one_dropped g LONG_MIN LONG_MAX LAT_MIN LAT_MAX) (rows cleaned) = []"
    by (rule filter_none) (simp add: stage_one_dropped_def fixed)
  have none2: "filter (stage_two_dropped g geo LONG_MIN LONG_MAX LAT_MIN LAT_MAX) (rows cleaned) = []"
    by (rule filter_none) (simp add: stage_two_dropped_def fixed)
  have "columns cleaned2 = columns cleaned" "rows cleaned2 = rows cleaned"
    by (simp_all add: cc2 rc2 same kept add_column_present [OF dist] fixed map_idI)
  then have c2: "cleaned2 = cleaned" by simp
  have "columns dropped2 = columns cleaned" "rows dropped2 = []"
    by (simp_all add: cd2 same add_column_present [OF dist] rd2 none1 none2)
  then have d2: "dropped2 = \<lparr>columns = columns cleaned, rows = []\<rparr>" by simp
  from r r2 ne show ?thesis
    unfolding same c2 d2 by blast
qed

section \<open>Malformed values in a dataset with all its columns\<close>

text \<open>
  C6. A missing column is not the only condition under which the call fails. The
  dataset of one trip whose timestamp does not parse has all seven required columns,
  and the call on it raises \<open>ValueError\<close> at line 71: the malformed row is not routed
  to a dropped frame, because nothing is returned.
\<close>

theorem unparseable_timestamp_alone_raises:
  "list_all (\<lambda>c. c \<in> set (columns bad_timestamp_frame)) required_columns \<and>
   getcol bad_timestamp_frame ''pickup_datetime'' = Inr [Str ''not-a-date''] \<and>
   snd (clean_uber_data sample_conv sample_geodesic bad_timestamp_frame (-74.3) (-73.7) 40.5 40.9)
     = Inl ValueError \<and>
   dropped_labels (clean_uber_data sample_conv sample_geodesic bad_timestamp_frame (-74.3) (-73.7) 40.5 40.9)
     = []"
  by (simp add: dropped_labels_def bad_timestamp_frame_def required_columns_def numeric_columns_def
      sample_eval)

lemma col_lt_cases:
  assumes "c \<in> set (columns df) \<longrightarrow> numeric_column df c"
  shows "col_lt df c v = (if c \<in> set (columns df) then Inr (map (\<lambda>r. cmp_true fl_lt r c v) (rows df))
                          else Inl (KeyError c))"
proof (cases "c \<in> set (columns df)")
  case True
  with assms show ?thesis by (simp add: col_lt_numeric)
next
  case False
  then show ?thesis by (simp add: col_lt_def getcol_absent)
qed

lemma col_gt_cases:
  assumes "c \<in> set (columns df) \<longrightarrow> numeric_column df c"
  shows "col_gt df c v = (if c \<in> set (columns df) then Inr (map (\<lambda>r. cmp_true fl_gt r c v) (rows df))
                          else Inl (KeyError c))"
proof (cases "c \<in> set (columns df)")
  case True
  with assms show ?thesis by (simp add: col_gt_numeric)
next
  case False
  then show ?thesis by (simp add: col_gt_def getcol_absent)
qed

lemma col_le_cases:
  assumes "c \<in> set (columns df) \<longrightarrow> numeric_column df c"
  shows "col_le df c v = (if c \<in> set (columns df) then Inr (map (\<lambda>r. cmp_true fl_le r c v) (rows df))
                          else Inl (KeyError c))"
proof (cases "c \<in> set (columns df)")
  case True
  with assms show ?thesis by (simp add: col_le_numeric)
next
  case False
  then show ?thesis by (simp add: col_le_def getcol_absent)
qed

lemma col_isna_cases:
  "col_isna df c = (if c \<in> set (columns df) then Inr (map (\<lambda>r. cell_isna (value_at r c)) (rows df))
                    else Inl (KeyError c))"
proof (cases "c \<in> set (columns df)")
  case True
  then show ?thesis by (simp add: col_isna_present)
next
  case False
  then show ?thesis by (simp add: col_isna_def getcol_absent)
qed

lemma series_or_Inl [simp]: "series_or (Inl e) b = Inl e"
  by (simp add: series_or_def)

lemma series_or_Inr_Inl [simp]: "series_or (Inr x) (Inl e) = Inl e"
  by (simp add: series_or_def)

lemma series_or_Inr_Inr: "series_or (Inr x) (Inr y) = Inr (map (\<lambda>(p, q). p \<or> q) (zip x y))"
  by (simp add: series_or_def)

lemma initial_condition_missing:
  assumes dt: "''pickup_datetime'' \<in> set (columns df)"
    and typed: "\<forall>c \<in> set numeric_columns. c \<in> set (columns df) \<longrightarrow> numeric_column df c"
    and missing: "\<exists>c \<in> set numeric_columns. c \<notin> set (columns df)"
  shows "\<exists>c \<in> set numeric_columns. c \<notin> set (columns df) \<and>
           initial_condition_combined df LONG_MIN LONG_MAX LAT_MIN LAT_MAX = Inl (KeyError c)"
proof -
  have t: "''pickup_longitude'' \<in> set (columns df) \<longrightarrow> numeric_column df ''pickup_longitude''"
    "''pickup_latitude'' \<in> set (columns df) \<longrightarrow> numeric_column df ''pickup_latitude''"
    "''dropoff_longitude'' \<in> set (columns df) \<longrightarrow> numeric_column df ''dropoff_longitude''"
    "''dropoff_latitude'' \<in> set (columns df) \<longrightarrow> numeric_column df ''dropoff_latitude''"
    "''fare_amount'' \<in> set (columns df) \<longrightarrow> numeric_column df ''fare_amount''"
    "''passenger_count'' \<in> set (columns df) \<longrightarrow> numeric_column df ''passenger_count''"
    using typed by (simp_all add: numeric_columns_def)
  note cases = col_lt_cases [OF t(1)] col_gt_cases [OF t(1)] col_lt_cases [OF t(2)] col_gt_cases [OF t(2)]
    col_lt_cases [OF t(3)] col_gt_cases [OF t(3)] col_lt_cases [OF t(4)] col_gt_cases [OF t(4)]
    col_le_cases [OF t(5)] col_le_cases [OF t(6)] col_gt_cases [OF t(6)] col_isna_cases
  consider "''pickup_longitude'' \<notin> set (columns df)"
    | "''pickup_longitude'' \<in> set (columns df)" "''pickup_latitude'' \<notin> set (columns df)"
    | "''pickup_longitude'' \<in> set (columns df)" "''pickup_latitude'' \<in> set (columns df)"
      "''dropoff_longitude'' \<notin> set (columns df)"
    | "''pickup_longitude'' \<in> set (columns df)" "''pickup_latitude'' \<in> set (columns df)"
      "''dropoff_longitude'' \<in> set (columns df)" "''dropoff_latitude'' \<notin> set (columns df)"
    | "''pickup_longitude'' \<in> set (columns df)" "''pickup_latitude'' \<in> set (columns df)"
      "''dropoff_longitude'' \<in> set (columns df)" "''dropoff_latitude'' \<in> set (columns df)"
      "''fare_amount'' \<notin> set (columns df)"
    | "''pickup_longitude'' \<in> set (columns df)" "''pickup_latitude'' \<in> set (columns df)"
      "''dropoff_longitude'' \<in> set (columns df)" "''dropoff_latitude'' \<in> set (columns df)"
      "''fare_amount'' \<in> set (columns df)" "''passenger_count'' \<notin> set (columns df)"
    using missing by (simp add: numeric_columns_def) blast
  then show ?thesis
  proof cases
    case 1
    then have "initial_condition_combined df LONG_MIN LONG_MAX LAT_MIN LAT_MAX = Inl (KeyError ''pickup_longitude'')"
      by (simp add: initial_condition_combined_def condition_invalid_datetime_def dt
          condition_out_of_range_def cases)
    with 1 show ?thesis by (auto simp: numeric_columns_def)
  next
    case 2
    then have "initial_condition_combined df LONG_MIN LONG_MAX LAT_MIN LAT_MAX = Inl (KeyError ''pickup_latitude'')"
      by (simp add: initial_condition_combined_def condition_invalid_datetime_def dt
          condition_out_of_range_def cases series_or_Inr_Inr)
    with 2 show ?thesis by (auto simp: numeric_columns_def)
  next
    case 3
    then have "initial_condition_combined df LONG_MIN LONG_MAX LAT_MIN LAT_MAX = Inl (KeyError ''dropoff_longitude'')"
      by (simp add: initial_condition_combined_def condition_invalid_datetime_def dt
          condition_out_of_range_def cases series_or_Inr_Inr)
    with 3 show ?thesis by (auto simp: numeric_columns_def)
  next
    case 4
    then have "initial_condition_combined df LONG_MIN LONG_MAX LAT_MIN LAT_MAX = Inl (KeyError ''dropoff_latitude'')"
      by (simp add: initial_condition_combined_def condition_invalid_datetime_def dt
          condition_out_of_range_def cases series_or_Inr_Inr)
    with 4 show ?thesis by (auto simp: numeric_columns_def)
  next
    case 5
    then have "initial_condition_combined df LONG_MIN LONG_MAX LAT_MIN LAT_MAX = Inl (KeyError ''fare_amount'')"
      by (simp add: initial_condition_combined_def condition_invalid_datetime_def dt
          condition_out_of_range_def condition_invalid_fare_def cases series_or_Inr_Inr)
    with 5 show ?thesis by (auto simp: numeric_columns_def)
  next
    case 6
    then have "initial_condition_combined df LONG_MIN LONG_MAX LAT_MIN LAT_MAX = Inl (KeyError ''passenger_count'')"
      by (simp add: initial_condition_combined_def condition_invalid_datetime_def dt
          condition_out_of_range_def condition_invalid_fare_def condition_nan_coordinates_def
          condition_zero_passenger_def cases series_or_Inr_Inr)
    with 6 show ?thesis by (auto simp: numeric_columns_def)
  qed
qed

lemma schema_ok_iff_typed:
  "schema_ok df \<longleftrightarrow> typed_columns df \<and> (\<forall>c \<in> set required_columns. c \<in> set (columns df))"
  by (auto simp: schema_ok_def typed_columns_def required_columns_def numeric_column_def)

lemma typed_columns_converted:
  assumes "typed_columns df"
  shows "\<forall>c \<in> set numeric_columns. c \<in> set (columns (converted f df)) \<longrightarrow>
           numeric_column (converted f df) c"
proof (intro ballI impI)
  fix c
  assume c: "c \<in> set numeric_columns" "c \<in> set (columns (converted f df))"
  then have ne: "c \<noteq> ''pickup_datetime''" "c \<noteq> ''pickup_hour''"
    by (auto simp: numeric_columns_def)
  with c(2) have "c \<in> set (columns df)"
    by (auto simp: converted_def add_column_def split: if_splits)
  with assms c(1) have "numeric_column df c"
    by (simp add: typed_columns_def numeric_column_def)
  then show "numeric_column (converted f df) c"
    using ne by (rule numeric_column_converted)
qed

text \<open>
  A missing column does make the call fail. On a dataset whose numeric columns, where
  present, hold numbers, and on whose timestamp column, where present, the conversion
  returns: if one of the seven required columns is absent the call raises \<open>KeyError\<close>
  for an absent required column and returns no frames.
\<close>

lemma missing_column_raises_key_error:
  assumes typed: "typed_columns df"
    and cv: "''pickup_datetime'' \<in> set (columns df) \<longrightarrow> converts conv df f"
    and missing: "\<exists>c \<in> set required_columns. c \<notin> set (columns df)"
  shows "\<exists>c \<in> set required_columns. c \<notin> set (columns df) \<and>
           snd (clean_uber_data conv geo df LONG_MIN LONG_MAX LAT_MIN LAT_MAX) = Inl (KeyError c)"
proof (cases "''pickup_datetime'' \<in> set (columns df)")
  case False
  then have "snd (clean_uber_data conv geo df LONG_MIN LONG_MAX LAT_MIN LAT_MAX)
               = Inl (KeyError ''pickup_datetime'')"
    by (simp add: clean_uber_data_def convert_datetime_def getcol_absent)
  with False show ?thesis
    by (auto simp: required_columns_def)
next
  case True
  let ?D = "converted f df"
  have in_cols: "c \<in> set (columns ?D) \<longleftrightarrow> c \<in> set (columns df)" if "c \<in> set numeric_columns" for c
    using that by (auto simp: converted_def add_column_def numeric_columns_def)
  from missing True have "\<exists>c \<in> set numeric_columns. c \<notin> set (columns df)"
    by (auto simp: required_columns_def)
  then have m: "\<exists>c \<in> set numeric_columns. c \<notin> set (columns ?D)"
    using in_cols by blast
  have dt: "''pickup_datetime'' \<in> set (columns ?D)"
    using True by (simp add: converted_def add_column_def)
  from initial_condition_missing [OF dt typed_columns_converted [OF typed] m]
  obtain c where c: "c \<in> set numeric_columns" "c \<notin> set (columns ?D)"
    "initial_condition_combined ?D LONG_MIN LONG_MAX LAT_MIN LAT_MAX = Inl (KeyError c)"
    by blast
  then have "snd (clean_uber_data conv geo df LONG_MIN LONG_MAX LAT_MIN LAT_MAX) = Inl (KeyError c)"
    by (simp add: clean_uber_data_def convert_datetime_present [OF True cv [rule_format, OF True]])
  with c(1,2) in_cols show ?thesis
    by (auto simp: required_columns_def)
qed

end
